theory Spec2Isabelle
  imports Complex_Main
begin

section \<open>Data model\<close>

text \<open>
  The repository is a Django application. Every model class becomes a record whose
  fields are the columns of the table; a foreign key is the primary key of the row it
  points to. Status columns are \<open>CharField\<close>s holding the codes of a \<open>TextChoices\<close>
  enumeration, so they are strings here, and the codes are named constants. Dates are
  day numbers (the proleptic ordinal of a \<open>datetime.date\<close>), so that the difference of
  two dates is the \<open>.days\<close> of their \<open>timedelta\<close>. \<open>Decimal\<close> amounts are rationals.
\<close>

type_synonym date = int

text \<open>listings/constants.py\<close>

definition SHELF_LENGTH :: int where "SHELF_LENGTH = 50"
definition SHELF_WIDTH :: int where "SHELF_WIDTH = 46"
definition SHELF_HEIGHT :: int where "SHELF_HEIGHT = 42"

text \<open>listings/models.py: \<open>Space.Status\<close>\<close>

definition Space_PENDING :: string where "Space_PENDING = ''PENDING''"
definition Space_APPROVED :: string where "Space_APPROVED = ''APPROVED''"
definition Space_REJECTED :: string where "Space_REJECTED = ''REJECTED''"
definition Space_ON_HOLD :: string where "Space_ON_HOLD = ''ON_HOLD''"

definition Space_Status_values :: "string list" where
  "Space_Status_values = [Space_PENDING, Space_APPROVED, Space_REJECTED, Space_ON_HOLD]"

text \<open>prelistings/models.py: \<open>InstallationRequest.Status\<close>\<close>

definition Request_PENDING :: string where "Request_PENDING = ''PENDING''"
definition Request_APPROVED :: string where "Request_APPROVED = ''APPROVED''"
definition Request_REJECTED :: string where "Request_REJECTED = ''REJECTED''"
definition Request_COMPLETED :: string where "Request_COMPLETED = ''COMPLETED''"

definition Request_Status_values :: "string list" where
  "Request_Status_values =
     [Request_PENDING, Request_APPROVED, Request_REJECTED, Request_COMPLETED]"

text \<open>bookings/models.py: \<open>Booking.Status\<close>\<close>

definition Booking_BOOKED :: string where "Booking_BOOKED = ''BOOKED''"
definition Booking_ACTIVE :: string where "Booking_ACTIVE = ''ACTIVE''"
definition Booking_PAST :: string where "Booking_PAST = ''PAST''"
definition Booking_CANCELLED :: string where "Booking_CANCELLED = ''CANCELLED''"

definition Booking_Status_values :: "string list" where
  "Booking_Status_values = [Booking_BOOKED, Booking_ACTIVE, Booking_PAST, Booking_CANCELLED]"

record location =
  location_id :: nat
  area :: string
  address :: string
  location_price_per_day :: rat

record space =
  space_id :: nat
  space_renter :: nat
  space_location :: nat
  space_environment_conditions :: string
  space_height :: int
  space_status :: string
  space_price_per_day :: rat
  space_description :: string

record rack =
  rack_id :: nat
  rack_space :: nat
  rack_length :: int

record shelf =
  shelf_id :: nat
  shelf_rack :: nat
  shelf_label :: string
  is_available :: bool

record installation_request =
  request_id :: nat
  request_renter :: nat
  request_location :: nat
  request_environment_conditions :: string
  request_status :: string
  request_price_per_day :: rat
  request_description :: string
  num_rack :: int
  num_shelves_per_rack :: int

record booking =
  booking_id :: nat
  lessee :: nat
  booking_rack :: nat
  num_shelves_occupied :: int
  start_date :: date
  end_date :: date
  total_price :: rat
  booking_status :: string
  occupying_space :: bool

text \<open>
  The database: one list of rows per table, in the order the rows are stored, and the
  next value of the auto-increment primary key of the three tables the code inserts
  into. The first field of each row is its primary key; that the keys of a table are
  distinct is assumed where a property needs it, and not otherwise.
\<close>

record db =
  locations :: "location list"
  spaces :: "space list"
  racks :: "rack list"
  shelves :: "shelf list"
  installation_requests :: "installation_request list"
  bookings :: "booking list"
  next_space_id :: nat
  next_rack_id :: nat
  next_shelf_id :: nat

text \<open>
  Exceptions. \<open>ValueError\<close> is what a Django queryset raises for a slice with a
  negative bound; \<open>DivisionByZero\<close> and \<open>InvalidOperation\<close> are what \<open>Decimal\<close>
  division raises for a zero divisor (the second when the dividend is zero too). The
  others are the exception classes of the repository, with the constructor's arguments.
\<close>

datatype error =
    ValueError
  | DivisionByZero
  | InvalidOperation
  | InvalidSpaceStateError string
  | SpaceStateTransitionError string string
  | InstallationRequestError string
  | InvalidInstallationRequestStateError string
  | InstallationRequestStateTransitionError string string
  | IncompleteInstallationRequestError string

text \<open>
  \<open>Model.save()\<close> of an object that has a primary key: the row with that key is
  overwritten, and the object is inserted when there is no such row.
\<close>

definition save_space :: "db \<Rightarrow> space \<Rightarrow> db" where
  "save_space d s =
     d\<lparr>spaces :=
         (if list_ex (\<lambda>x. space_id x = space_id s) (spaces d)
          then map (\<lambda>x. if space_id x = space_id s then s else x) (spaces d)
          else spaces d @ [s])\<rparr>"

definition save_installation_request :: "db \<Rightarrow> installation_request \<Rightarrow> db" where
  "save_installation_request d r =
     d\<lparr>installation_requests :=
         (if list_ex (\<lambda>x. request_id x = request_id r) (installation_requests d)
          then map (\<lambda>x. if request_id x = request_id r then r else x) (installation_requests d)
          else installation_requests d @ [r])\<rparr>"

definition save_booking :: "db \<Rightarrow> booking \<Rightarrow> db" where
  "save_booking d b =
     d\<lparr>bookings :=
         (if list_ex (\<lambda>x. booking_id x = booking_id b) (bookings d)
          then map (\<lambda>x. if booking_id x = booking_id b then b else x) (bookings d)
          else bookings d @ [b])\<rparr>"

section \<open>Space lifecycle (listings/services.py, \<open>SpaceStateService\<close>)\<close>

definition SpaceStateService_is_valid_status :: "string \<Rightarrow> bool" where
  "SpaceStateService_is_valid_status status = (status \<in> set Space_Status_values)"

definition SpaceStateService_is_valid_transition :: "string \<Rightarrow> string \<Rightarrow> bool" where
  "SpaceStateService_is_valid_transition old_status new_status =
     (if new_status = Space_PENDING then False
      else if old_status \<in> set [Space_APPROVED, Space_ON_HOLD] \<and> new_status = Space_REJECTED
        then False
      else if new_status = old_status then False
      else True)"

text \<open>
  \<open>transition\<close> mutates the object it is given and the database. The model returns the
  result (the exception or the value returned), the database and the object as they are
  when the call ends, also when it ends by raising.
\<close>

definition SpaceStateService_transition ::
  "db \<Rightarrow> space \<Rightarrow> string \<Rightarrow> (error + bool) \<times> db \<times> space" where
  "SpaceStateService_transition d sp new_status =
     (if \<not> SpaceStateService_is_valid_status new_status
        then (Inl (InvalidSpaceStateError new_status), d, sp)
      else if \<not> SpaceStateService_is_valid_transition (space_status sp) new_status
        then (Inl (SpaceStateTransitionError (space_status sp) new_status), d, sp)
      else (let sp' = sp\<lparr>space_status := new_status\<rparr>
            in (Inr True, save_space d sp', sp')))"

section \<open>Installation request lifecycle (prelistings/services.py)\<close>

definition InstallationRequestStateService_is_valid_status :: "string \<Rightarrow> bool" where
  "InstallationRequestStateService_is_valid_status status =
     (status \<in> set Request_Status_values)"

definition InstallationRequestStateService_is_valid_transition ::
  "string \<Rightarrow> string \<Rightarrow> bool" where
  "InstallationRequestStateService_is_valid_transition old_status new_status =
     (if old_status = Request_PENDING
           \<and> new_status \<in> set [Request_APPROVED, Request_REJECTED] then True
      else if old_status = Request_APPROVED \<and> new_status = Request_COMPLETED then True
      else True)"

definition InstallationRequestStateService_transition ::
  "db \<Rightarrow> installation_request \<Rightarrow> string
     \<Rightarrow> (error + bool) \<times> db \<times> installation_request" where
  "InstallationRequestStateService_transition d r new_status =
     (if \<not> InstallationRequestStateService_is_valid_status new_status
        then (Inl (InvalidInstallationRequestStateError new_status), d, r)
      else if \<not> InstallationRequestStateService_is_valid_transition (request_status r) new_status
        then (Inl (InstallationRequestStateTransitionError (request_status r) new_status), d, r)
      else if new_status = Request_COMPLETED \<and> num_rack r * num_shelves_per_rack r = 0
        then (Inl (IncompleteInstallationRequestError
                 ''Number of racks and shelves per rack must be non-zero values''), d, r)
      else (let r' = r\<lparr>request_status := new_status\<rparr>
            in (Inr True, save_installation_request d r', r')))"


section \<open>Inventory (listings/services.py, \<open>SpaceService\<close>)\<close>

text \<open>
  Related managers. A foreign key column cannot hold the key of a missing row (the
  database enforces it), so \<open>space.rack_set\<close>, \<open>rack.shelf_set\<close> and
  \<open>booking.rack.shelf_set\<close> are the rows whose foreign key is the given primary key.
\<close>

definition rack_set :: "db \<Rightarrow> nat \<Rightarrow> rack list" where
  "rack_set d sid = filter (\<lambda>r. rack_space r = sid) (racks d)"

definition shelf_set :: "db \<Rightarrow> nat \<Rightarrow> shelf list" where
  "shelf_set d rid = filter (\<lambda>s. shelf_rack s = rid) (shelves d)"

text \<open>\<open>Count('shelf', filter = Q(shelf__is_available = True))\<close> on a rack.\<close>

definition available_shelves :: "db \<Rightarrow> rack \<Rightarrow> int" where
  "available_shelves d r = int (length (filter is_available (shelf_set d (rack_id r))))"

definition SpaceService_get_spaces :: "db \<Rightarrow> nat option \<Rightarrow> string option \<Rightarrow> space list" where
  "SpaceService_get_spaces d renter status =
     (let sps = spaces d;
          sps = (case renter of None \<Rightarrow> sps
                 | Some u \<Rightarrow> filter (\<lambda>s. space_renter s = u) sps);
          sps = (case status of None \<Rightarrow> sps
                 | Some st \<Rightarrow>
                     if SpaceStateService_is_valid_status st
                     then filter (\<lambda>s. space_status s = st) sps else sps)
      in sps)"

definition SpaceService_get_racks :: "db \<Rightarrow> space \<Rightarrow> rack list" where
  "SpaceService_get_racks d sp = rack_set d (space_id sp)"

text \<open>
  \<open>str(i)\<close> of a natural number and \<open>str.zfill\<close>, which pads with zeros on the left
  up to the width, after a leading sign if there is one.
\<close>

definition digit_char :: "nat \<Rightarrow> char" where
  "digit_char k = char_of (48 + k)"

function str_nat :: "nat \<Rightarrow> string" where
  "str_nat n = (if n < 10 then [digit_char n] else str_nat (n div 10) @ [digit_char (n mod 10)])"
  by pat_completeness auto
termination
  by (relation "measure id") auto

definition zfill :: "nat \<Rightarrow> string \<Rightarrow> string" where
  "zfill width s =
     (case s of
        [] \<Rightarrow> replicate width (CHR ''0'')
      | c # cs \<Rightarrow>
          if c = CHR ''+'' \<or> c = CHR ''-''
          then c # replicate (width - length s) (CHR ''0'') @ cs
          else replicate (width - length s) (CHR ''0'') @ s)"

text \<open>
  \<open>save()\<close> of a new object: the row is appended with the next primary key, which the
  object receives.
\<close>

definition insert_space :: "db \<Rightarrow> space \<Rightarrow> db \<times> space" where
  "insert_space d s =
     (let s' = s\<lparr>space_id := next_space_id d\<rparr>
      in (d\<lparr>spaces := spaces d @ [s'], next_space_id := Suc (next_space_id d)\<rparr>, s'))"

definition insert_rack :: "db \<Rightarrow> rack \<Rightarrow> db \<times> rack" where
  "insert_rack d r =
     (let r' = r\<lparr>rack_id := next_rack_id d\<rparr>
      in (d\<lparr>racks := racks d @ [r'], next_rack_id := Suc (next_rack_id d)\<rparr>, r'))"

definition insert_shelf :: "db \<Rightarrow> shelf \<Rightarrow> db \<times> shelf" where
  "insert_shelf d s =
     (let s' = s\<lparr>shelf_id := next_shelf_id d\<rparr>
      in (d\<lparr>shelves := shelves d @ [s'], next_shelf_id := Suc (next_shelf_id d)\<rparr>, s'))"

text \<open>
  \<open>create_shelves\<close>: the inner loop over \<open>range(num_shelf_per_rack)\<close> and the outer loop
  over \<open>range(num_rack)\<close>. \<open>range\<close> of a negative number is empty. \<open>Rack()\<close> and
  \<open>Shelf()\<close> start from the defaults of the model (\<open>is_available = True\<close>).
\<close>

fun create_shelves_of_rack :: "db \<Rightarrow> rack \<Rightarrow> nat list \<Rightarrow> db" where
  "create_shelves_of_rack d r [] = d"
| "create_shelves_of_rack d r (i # is) =
     create_shelves_of_rack
       (fst (insert_shelf d
          \<lparr>shelf_id = 0, shelf_rack = rack_id r,
           shelf_label = zfill 3 (str_nat i), is_available = True\<rparr>)) r is"

fun create_racks :: "db \<Rightarrow> space \<Rightarrow> int \<Rightarrow> nat list \<Rightarrow> db" where
  "create_racks d sp num_shelf_per_rack [] = d"
| "create_racks d sp num_shelf_per_rack (u # us) =
     (let (d1, r) = insert_rack d
            \<lparr>rack_id = 0, rack_space = space_id sp,
             rack_length = num_shelf_per_rack * SHELF_LENGTH\<rparr>;
          d2 = create_shelves_of_rack d1 r [0 ..< nat num_shelf_per_rack]
      in create_racks d2 sp num_shelf_per_rack us)"

definition SpaceService_create_shelves :: "db \<Rightarrow> space \<Rightarrow> int \<Rightarrow> int \<Rightarrow> db" where
  "SpaceService_create_shelves d sp n_rack num_shelf_per_rack =
     create_racks d sp num_shelf_per_rack [0 ..< nat n_rack]"

text \<open>
  \<open>location__area__icontains\<close>: a case-insensitive substring test. Letters are
  compared after folding the ASCII capitals, as SQLite's \<open>LIKE\<close> does.
\<close>

definition lower_char :: "char \<Rightarrow> char" where
  "lower_char c =
     (if 65 \<le> (of_char c :: nat) \<and> (of_char c :: nat) \<le> 90
      then char_of ((of_char c :: nat) + 32) else c)"

fun contains :: "string \<Rightarrow> string \<Rightarrow> bool" where
  "contains [] needle = (needle = [])"
| "contains (c # cs) needle =
     (take (length needle) (c # cs) = needle \<or> contains cs needle)"

definition icontains :: "string \<Rightarrow> string \<Rightarrow> bool" where
  "icontains hay needle = contains (map lower_char hay) (map lower_char needle)"

text \<open>
  The subquery that annotates a space with the largest number of available shelves of
  one of its racks; it is NULL for a space without racks.
\<close>

definition max_available_shelves :: "db \<Rightarrow> space \<Rightarrow> int option" where
  "max_available_shelves d sp =
     (case map (available_shelves d) (rack_set d (space_id sp)) of
        [] \<Rightarrow> None
      | c # cs \<Rightarrow> Some (fold max cs c))"

text \<open>
  \<open>get_available_spaces\<close>. The search location is a string, empty when the caller
  passes \<open>None\<close> or \<open>''\<close> (both are false in the test \<open>if search_location\<close>). The
  result lists each space with its two annotations, \<open>available_shelves\<close> and
  \<open>num_shelves\<close>. \<open>ceil(search_length / SHELF_LENGTH)\<close> is the ceiling of the exact
  quotient (Python divides in floating point, which gives the same ceiling for every
  length below \<open>2 ^ 46\<close>).
\<close>

definition SpaceService_get_available_spaces ::
  "db \<Rightarrow> string \<Rightarrow> int \<Rightarrow> int \<Rightarrow> int \<Rightarrow> (space \<times> int option \<times> int) list" where
  "SpaceService_get_available_spaces d search_location length0 width0 search_height =
     (let available_spaces = SpaceService_get_spaces d None (Some Space_APPROVED);
          search_length = max length0 width0;
          search_width = min length0 width0
      in if search_width > SHELF_WIDTH then []
         else if search_height > SHELF_HEIGHT then []
         else
           (let available_spaces =
                  (if search_location \<noteq> []
                   then filter (\<lambda>s. list_ex (\<lambda>l. location_id l = space_location s
                                          \<and> icontains (area l) search_location) (locations d))
                          available_spaces
                   else available_spaces);
                available_spaces =
                  filter (\<lambda>s. list_ex (\<lambda>r. rack_length r \<ge> search_length)
                                (rack_set d (space_id s))) available_spaces;
                min_shelves_required =
                  \<lceil>(of_int search_length :: rat) / of_int SHELF_LENGTH\<rceil>;
                space_ids =
                  map space_id
                    (filter (\<lambda>s. list_ex (\<lambda>r. available_shelves d r \<ge> min_shelves_required)
                                  (rack_set d (space_id s))) available_spaces);
                available_spaces = filter (\<lambda>s. space_id s \<in> set space_ids) available_spaces
            in map (\<lambda>s. (s, max_available_shelves d s, min_shelves_required))
                 available_spaces))"

section \<open>Conversion of an installation request (prelistings/services.py)\<close>

definition delete_installation_request :: "db \<Rightarrow> installation_request \<Rightarrow> db" where
  "delete_installation_request d r =
     d\<lparr>installation_requests :=
         filter (\<lambda>x. request_id x \<noteq> request_id r) (installation_requests d)\<rparr>"

definition InstallationRequestService_convert_to_space ::
  "db \<Rightarrow> installation_request \<Rightarrow> (error + space) \<times> db" where
  "InstallationRequestService_convert_to_space d r =
     (if request_status r = Request_COMPLETED
      then (let (d1, sp) = insert_space d
                   \<lparr>space_id = 0,
                    space_renter = request_renter r,
                    space_location = request_location r,
                    space_environment_conditions = request_environment_conditions r,
                    space_height = SHELF_HEIGHT * num_rack r,
                    space_status = Space_APPROVED,
                    space_price_per_day = request_price_per_day r,
                    space_description = request_description r\<rparr>;
                d2 = SpaceService_create_shelves d1 sp (num_rack r) (num_shelves_per_rack r);
                d3 = delete_installation_request d2 r
            in (Inr sp, d3))
      else (Inl (InstallationRequestError (request_status r)), d))"


section \<open>Bookings (bookings/services.py)\<close>

definition DateMgr_get_total_days :: "date \<Rightarrow> date \<Rightarrow> int" where
  "DateMgr_get_total_days start_d end_d = (end_d - start_d) + 1"

definition BookingService_get_total_days :: "booking \<Rightarrow> int" where
  "BookingService_get_total_days b = DateMgr_get_total_days (start_date b) (end_date b)"

text \<open>
  \<open>Decimal / int\<close>. A zero divisor raises. Otherwise Python returns the quotient
  rounded to 28 significant digits, which is the exact quotient whenever that has at
  most 28 digits; the model returns the exact quotient.
\<close>

definition decimal_div :: "rat \<Rightarrow> int \<Rightarrow> error + rat" where
  "decimal_div x n =
     (if n = 0 then (if x = 0 then Inl InvalidOperation else Inl DivisionByZero)
      else Inr (x / of_int n))"

definition BookingService_get_price_per_day :: "booking \<Rightarrow> error + rat" where
  "BookingService_get_price_per_day b =
     decimal_div (total_price b) (num_shelves_occupied b * BookingService_get_total_days b)"

text \<open>
  The price that \<open>BookingCreateView.form_valid\<close> (bookings/views.py) stores in a new
  booking: \<open>num_days * space.price_per_day * num_shelves_occupied\<close>.
\<close>

definition form_valid_total_price :: "date \<Rightarrow> date \<Rightarrow> rat \<Rightarrow> int \<Rightarrow> rat" where
  "form_valid_total_price start_d end_d price_per_day num_shelves =
     of_int (DateMgr_get_total_days start_d end_d) * price_per_day * of_int num_shelves"

text \<open>
  \<open>get_shelves\<close>. The slice \<open>[ : num_shelves_occupied]\<close> of a queryset raises
  \<open>ValueError\<close> for a negative bound. The result is the queryset
  \<open>booking.rack.shelf_set.filter(id__in = shelf_ids)\<close>, as the list of its rows.
\<close>

definition BookingService_get_shelves :: "db \<Rightarrow> booking \<Rightarrow> error + shelf list" where
  "BookingService_get_shelves d b =
     (let shs = shelf_set d (booking_rack b);
          shs = (if occupying_space b then filter (\<lambda>s. is_available s = False) shs
                 else filter (\<lambda>s. is_available s = True) shs)
      in if num_shelves_occupied b < 0 then Inl ValueError
         else (let shs = take (nat (num_shelves_occupied b)) (sort_key shelf_id shs);
                   shelf_ids = map shelf_id shs
               in Inr (filter (\<lambda>s. shelf_id s \<in> set shelf_ids)
                         (shelf_set d (booking_rack b)))))"

text \<open>\<open>QuerySet.update(is_available = v)\<close>: every row of the queryset is overwritten.\<close>

definition update_is_available :: "db \<Rightarrow> shelf list \<Rightarrow> bool \<Rightarrow> db" where
  "update_is_available d qs v =
     d\<lparr>shelves := map (\<lambda>s. if s \<in> set qs then s\<lparr>is_available := v\<rparr> else s) (shelves d)\<rparr>"

text \<open>
  The functions of \<open>BookingStateService\<close> return \<open>None\<close> or raise; the model returns
  the exception raised, if any, with the database and the booking object as they are
  when the call ends.
\<close>

definition BookingStateService_is_valid_status :: "string \<Rightarrow> bool" where
  "BookingStateService_is_valid_status status = (status \<in> set Booking_Status_values)"

definition BookingStateService_release_space ::
  "db \<Rightarrow> booking \<Rightarrow> error option \<times> db \<times> booking" where
  "BookingStateService_release_space d b =
     (case BookingService_get_shelves d b of
        Inl e \<Rightarrow> (Some e, d, b)
      | Inr qs \<Rightarrow> (None, update_is_available d qs True, b\<lparr>occupying_space := False\<rparr>))"

definition BookingStateService_occupy_space ::
  "db \<Rightarrow> booking \<Rightarrow> error option \<times> db \<times> booking" where
  "BookingStateService_occupy_space d b =
     (case BookingService_get_shelves d b of
        Inl e \<Rightarrow> (Some e, d, b)
      | Inr qs \<Rightarrow> (None, update_is_available d qs False, b\<lparr>occupying_space := True\<rparr>))"

definition BookingStateService_update_space ::
  "db \<Rightarrow> booking \<Rightarrow> error option \<times> db \<times> booking" where
  "BookingStateService_update_space d b =
     (let (r, d1, b1) =
            (if booking_status b \<noteq> Booking_ACTIVE \<and> occupying_space b
               then BookingStateService_release_space d b
             else if booking_status b = Booking_ACTIVE \<and> \<not> occupying_space b
               then BookingStateService_occupy_space d b
             else (None, d, b))
      in case r of
           Some e \<Rightarrow> (Some e, d1, b1)
         | None \<Rightarrow> (None, save_booking d1 b1, b1))"

text \<open>
  \<open>update_status\<close>. \<open>localdate()\<close> is the parameter \<open>today\<close>. The optional
  \<open>new_status\<close> is tested for truth, so \<open>None\<close> and the empty string both select the
  automatic update, \<open>automatic_status\<close>: the \<open>else\<close> branch of the source.
\<close>

definition automatic_status :: "date \<Rightarrow> booking \<Rightarrow> booking" where
  "automatic_status today b =
     (if \<not> booking_status b = Booking_CANCELLED
      then (if end_date b < today then b\<lparr>booking_status := Booking_PAST\<rparr>
            else if start_date b \<le> today then b\<lparr>booking_status := Booking_ACTIVE\<rparr>
            else b\<lparr>booking_status := Booking_BOOKED\<rparr>)
      else b)"

definition BookingStateService_update_status ::
  "date \<Rightarrow> db \<Rightarrow> booking \<Rightarrow> string option \<Rightarrow> error option \<times> db \<times> booking" where
  "BookingStateService_update_status today d b new_status =
     (let b1 =
            (case new_status of
               None \<Rightarrow> automatic_status today b
             | Some s \<Rightarrow>
                 if s \<noteq> []
                 then (if BookingStateService_is_valid_status s
                       then b\<lparr>booking_status := s\<rparr> else b)
                 else automatic_status today b)
      in BookingStateService_update_space d b1)"

text \<open>
  \<open>update_status_all\<close>: the loop over \<open>Booking.objects.all()\<close>, whose rows are read
  when the loop starts. An exception ends the loop and leaves the database as it is
  then.
\<close>

fun update_status_loop :: "date \<Rightarrow> db \<Rightarrow> booking list \<Rightarrow> error option \<times> db" where
  "update_status_loop today d [] = (None, d)"
| "update_status_loop today d (b # bs) =
     (case BookingStateService_update_status today d b None of
        (Some e, d1, b1) \<Rightarrow> (Some e, d1)
      | (None, d1, b1) \<Rightarrow> update_status_loop today d1 bs)"

definition BookingStateService_update_status_all :: "date \<Rightarrow> db \<Rightarrow> error option \<times> db" where
  "BookingStateService_update_status_all today d = update_status_loop today d (bookings d)"

text \<open>
  \<open>get_rack\<close>: the racks of the space annotated with their number of available shelves,
  those with enough of them, ordered by that number, and the first one or \<open>None\<close>. The
  database orders rows with equal numbers as it likes; here they keep the order of the
  table.
\<close>

definition BookingFormService_get_rack :: "db \<Rightarrow> space \<Rightarrow> int \<Rightarrow> rack option" where
  "BookingFormService_get_rack d sp min_shelves =
     (let annotated = map (\<lambda>r. (r, available_shelves d r)) (SpaceService_get_racks d sp);
          filtered = filter (\<lambda>(r, n). n \<ge> min_shelves) annotated;
          ordered = sort_key snd filtered
      in case ordered of [] \<Rightarrow> None | (r, n) # rest \<Rightarrow> Some r)"

section \<open>Example data\<close>

text \<open>
  A small database for the concrete cases below: one location, one approved space with
  three racks that have 5, 2 and 8 available shelves, one completed installation request
  for 2 racks of 3 shelves, and two bookings on the second rack.
\<close>

definition example_location :: location where
  "example_location =
     \<lparr>location_id = 1, area = ''AMK'', address = ''1 Example Road'',
      location_price_per_day = 699 / 100\<rparr>"

definition example_space :: space where
  "example_space =
     \<lparr>space_id = 1, space_renter = 1, space_location = 1,
      space_environment_conditions = ''AC'', space_height = 126,
      space_status = Space_APPROVED, space_price_per_day = 699 / 100,
      space_description = ''Storage''\<rparr>"

definition example_racks :: "rack list" where
  "example_racks =
     [\<lparr>rack_id = 1, rack_space = 1, rack_length = 250\<rparr>,
      \<lparr>rack_id = 2, rack_space = 1, rack_length = 150\<rparr>,
      \<lparr>rack_id = 3, rack_space = 1, rack_length = 400\<rparr>]"

definition example_shelves :: "shelf list" where
  "example_shelves =
     map (\<lambda>(i, r, l, a). \<lparr>shelf_id = i, shelf_rack = r, shelf_label = l, is_available = a\<rparr>)
       [(1, 1, ''000'', True), (2, 1, ''001'', True), (3, 1, ''002'', True),
        (4, 1, ''003'', True), (5, 1, ''004'', True),
        (6, 2, ''000'', False), (7, 2, ''001'', True), (8, 2, ''002'', True),
        (9, 3, ''000'', True), (10, 3, ''001'', True), (11, 3, ''002'', True),
        (12, 3, ''003'', True), (13, 3, ''004'', True), (14, 3, ''005'', True),
        (15, 3, ''006'', True), (16, 3, ''007'', True)]"

definition example_request :: installation_request where
  "example_request =
     \<lparr>request_id = 1, request_renter = 1, request_location = 1,
      request_environment_conditions = ''AC'', request_status = Request_COMPLETED,
      request_price_per_day = 699 / 100, request_description = ''Storage'',
      num_rack = 2, num_shelves_per_rack = 3\<rparr>"

definition example_booking :: booking where
  "example_booking =
     \<lparr>booking_id = 1, lessee = 2, booking_rack = 2, num_shelves_occupied = 2,
      start_date = 10, end_date = 12, total_price = 4194 / 100,
      booking_status = Booking_BOOKED, occupying_space = False\<rparr>"

definition example_booking2 :: booking where
  "example_booking2 =
     \<lparr>booking_id = 2, lessee = 2, booking_rack = 2, num_shelves_occupied = 1,
      start_date = 1, end_date = 5, total_price = 3495 / 100,
      booking_status = Booking_ACTIVE, occupying_space = True\<rparr>"

definition example_db :: db where
  "example_db =
     \<lparr>locations = [example_location], spaces = [example_space], racks = example_racks,
      shelves = example_shelves, installation_requests = [example_request],
      bookings = [example_booking, example_booking2],
      next_space_id = 2, next_rack_id = 4, next_shelf_id = 17\<rparr>"

section \<open>Properties\<close>

subsection \<open>Space lifecycle\<close>

lemmas space_codes = Space_PENDING_def Space_APPROVED_def Space_REJECTED_def Space_ON_HOLD_def
  Space_Status_values_def

text \<open>
  C2. The rule of the space state machine: \<open>is_valid_transition old new\<close> is false
  exactly when the target is Pending, or equal to the current status, or Rejected from
  Approved or On Hold. \<open>transition\<close> raises \<open>InvalidSpaceStateError\<close> for a target that is
  not one of the four codes and \<open>SpaceStateTransitionError\<close> for a pair the rule refuses,
  leaving the database and the space as they were; otherwise it returns \<open>True\<close>, the
  space has the new status and is the row of its key in the table. Approved to
  Rejected, Approved to Approved and On Hold to Rejected are refused; Pending to
  Approved and Rejected to On Hold are allowed.
\<close>

theorem space_transition_rule:
  "(SpaceStateService_is_valid_status new
      \<longleftrightarrow> new \<in> {Space_PENDING, Space_APPROVED, Space_REJECTED, Space_ON_HOLD})
   \<and> (SpaceStateService_is_valid_transition old new
      \<longleftrightarrow> \<not> (new = Space_PENDING \<or> new = old
              \<or> (old \<in> {Space_APPROVED, Space_ON_HOLD} \<and> new = Space_REJECTED)))
   \<and> (\<not> SpaceStateService_is_valid_status new \<longrightarrow>
        SpaceStateService_transition d sp new = (Inl (InvalidSpaceStateError new), d, sp))
   \<and> (SpaceStateService_is_valid_status new
        \<and> \<not> SpaceStateService_is_valid_transition (space_status sp) new \<longrightarrow>
        SpaceStateService_transition d sp new
          = (Inl (SpaceStateTransitionError (space_status sp) new), d, sp))
   \<and> (SpaceStateService_is_valid_status new
        \<and> SpaceStateService_is_valid_transition (space_status sp) new \<longrightarrow>
        (\<exists>d'. SpaceStateService_transition d sp new = (Inr True, d', sp\<lparr>space_status := new\<rparr>)
           \<and> sp\<lparr>space_status := new\<rparr> \<in> set (spaces d')
           \<and> (\<forall>x \<in> set (spaces d'). space_id x = space_id sp \<longrightarrow> space_status x = new)
           \<and> racks d' = racks d \<and> shelves d' = shelves d \<and> bookings d' = bookings d))
   \<and> \<not> SpaceStateService_is_valid_transition Space_APPROVED Space_REJECTED
   \<and> \<not> SpaceStateService_is_valid_transition Space_APPROVED Space_APPROVED
   \<and> \<not> SpaceStateService_is_valid_transition Space_ON_HOLD Space_REJECTED
   \<and> SpaceStateService_is_valid_transition Space_PENDING Space_APPROVED
   \<and> SpaceStateService_is_valid_transition Space_REJECTED Space_ON_HOLD"
proof -
  have saved: "sp\<lparr>space_status := new\<rparr> \<in> set (spaces (save_space d (sp\<lparr>space_status := new\<rparr>)))"
    by (auto simp: save_space_def list_ex_iff)
  have rows: "\<forall>x \<in> set (spaces (save_space d (sp\<lparr>space_status := new\<rparr>))).
                space_id x = space_id sp \<longrightarrow> space_status x = new"
    by (auto simp: save_space_def list_ex_iff)
  have rest: "racks (save_space d s) = racks d \<and> shelves (save_space d s) = shelves d
                \<and> bookings (save_space d s) = bookings d" for s
    by (simp add: save_space_def)
  have codes: "\<not> SpaceStateService_is_valid_transition Space_APPROVED Space_REJECTED
   \<and> \<not> SpaceStateService_is_valid_transition Space_APPROVED Space_APPROVED
   \<and> \<not> SpaceStateService_is_valid_transition Space_ON_HOLD Space_REJECTED
   \<and> SpaceStateService_is_valid_transition Space_PENDING Space_APPROVED
   \<and> SpaceStateService_is_valid_transition Space_REJECTED Space_ON_HOLD"
    by (simp add: SpaceStateService_is_valid_transition_def space_codes)
  have vs: "SpaceStateService_is_valid_status new
      \<longleftrightarrow> new \<in> {Space_PENDING, Space_APPROVED, Space_REJECTED, Space_ON_HOLD}"
    by (simp add: SpaceStateService_is_valid_status_def Space_Status_values_def)
  have vt: "SpaceStateService_is_valid_transition old new
      \<longleftrightarrow> \<not> (new = Space_PENDING \<or> new = old
              \<or> (old \<in> {Space_APPROVED, Space_ON_HOLD} \<and> new = Space_REJECTED))"
    by (auto simp: SpaceStateService_is_valid_transition_def)
  show ?thesis
    using saved rows rest codes vs vt
    by (simp add: SpaceStateService_transition_def Let_def)
qed

text \<open>
  On the example space, which is Approved: the target Rejected is refused with the
  transition error, the unknown code \<open>DONE\<close> with the state error, and On Hold is
  stored.
\<close>

theorem space_transition_rule_witness:
  "SpaceStateService_transition example_db example_space Space_REJECTED
     = (Inl (SpaceStateTransitionError Space_APPROVED Space_REJECTED), example_db, example_space)
   \<and> SpaceStateService_transition example_db example_space ''DONE''
     = (Inl (InvalidSpaceStateError ''DONE''), example_db, example_space)
   \<and> fst (SpaceStateService_transition example_db example_space Space_ON_HOLD) = Inr True
   \<and> map space_status (spaces (fst (snd
         (SpaceStateService_transition example_db example_space Space_ON_HOLD))))
     = [Space_ON_HOLD]"
proof -
  have a: "SpaceStateService_is_valid_status Space_REJECTED
           \<and> \<not> SpaceStateService_is_valid_transition (space_status example_space) Space_REJECTED"
    by (simp add: SpaceStateService_is_valid_status_def
        SpaceStateService_is_valid_transition_def example_space_def space_codes)
  have b: "\<not> SpaceStateService_is_valid_status ''DONE''"
    by (simp add: SpaceStateService_is_valid_status_def space_codes)
  have c: "SpaceStateService_is_valid_status Space_ON_HOLD
           \<and> SpaceStateService_is_valid_transition (space_status example_space) Space_ON_HOLD"
    by (simp add: SpaceStateService_is_valid_status_def
        SpaceStateService_is_valid_transition_def example_space_def space_codes)
  have st: "space_status example_space = Space_APPROVED"
    by (simp add: example_space_def)
  have rows: "spaces example_db = [example_space]"
    by (simp add: example_db_def)
  from a space_transition_rule [of Space_REJECTED Space_REJECTED example_db example_space]
  have 1: "SpaceStateService_transition example_db example_space Space_REJECTED
     = (Inl (SpaceStateTransitionError Space_APPROVED Space_REJECTED), example_db, example_space)"
    by (simp add: st)
  from b space_transition_rule [of "''DONE''" "''DONE''" example_db example_space]
  have 2: "SpaceStateService_transition example_db example_space ''DONE''
     = (Inl (InvalidSpaceStateError ''DONE''), example_db, example_space)"
    by simp
  from c space_transition_rule [of Space_ON_HOLD Space_ON_HOLD example_db example_space]
  obtain d' where 3: "SpaceStateService_transition example_db example_space Space_ON_HOLD
       = (Inr True, d', example_space\<lparr>space_status := Space_ON_HOLD\<rparr>)"
    by blast
  then have 4: "spaces d' = [example_space\<lparr>space_status := Space_ON_HOLD\<rparr>]"
    by (auto simp add: SpaceStateService_transition_def Let_def save_space_def rows
        split: if_splits)
  show ?thesis using 1 2 3 4 by simp
qed

subsection \<open>Installation request lifecycle\<close>

lemma save_installation_request_mem:
  "r \<in> set (installation_requests (save_installation_request d r))"
  by (auto simp: save_installation_request_def list_ex_iff)

lemma save_installation_request_rows:
  "x \<in> set (installation_requests (save_installation_request d r)) \<Longrightarrow>
   request_id x = request_id r \<Longrightarrow> x = r"
  by (auto simp: save_installation_request_def list_ex_iff split: if_splits)

text \<open>
  C3. The rule of the installation request state machine accepts every pair of
  statuses. \<open>transition\<close> raises \<open>InvalidInstallationRequestStateError\<close> exactly when the
  target is not one of the four codes, and \<open>IncompleteInstallationRequestError\<close> exactly
  when the target is Completed and \<open>num_rack * num_shelves_per_rack\<close> is zero; in every
  other case it returns \<open>True\<close>, and the request has the new status and is the row of
  its key in the table. When it raises, the database and the request are as they were.
\<close>

theorem request_transition_rule:
  "InstallationRequestStateService_is_valid_transition old new
   \<and> ((\<exists>s. fst (InstallationRequestStateService_transition d r new)
              = Inl (InvalidInstallationRequestStateError s))
        \<longleftrightarrow> new \<notin> {Request_PENDING, Request_APPROVED, Request_REJECTED, Request_COMPLETED})
   \<and> ((\<exists>m. fst (InstallationRequestStateService_transition d r new)
              = Inl (IncompleteInstallationRequestError m))
        \<longleftrightarrow> new = Request_COMPLETED \<and> num_rack r * num_shelves_per_rack r = 0)
   \<and> (new \<in> {Request_PENDING, Request_APPROVED, Request_REJECTED, Request_COMPLETED}
        \<and> \<not> (new = Request_COMPLETED \<and> num_rack r * num_shelves_per_rack r = 0) \<longrightarrow>
        (\<exists>d'. InstallationRequestStateService_transition d r new
                = (Inr True, d', r\<lparr>request_status := new\<rparr>)
           \<and> r\<lparr>request_status := new\<rparr> \<in> set (installation_requests d')
           \<and> (\<forall>x \<in> set (installation_requests d').
                 request_id x = request_id r \<longrightarrow> request_status x = new)))
   \<and> (\<forall>e. fst (InstallationRequestStateService_transition d r new) = Inl e \<longrightarrow>
          snd (InstallationRequestStateService_transition d r new) = (d, r))"
proof -
  have vt: "InstallationRequestStateService_is_valid_transition a b" for a b
    by (simp add: InstallationRequestStateService_is_valid_transition_def)
  have vs: "InstallationRequestStateService_is_valid_status new
      \<longleftrightarrow> new \<in> {Request_PENDING, Request_APPROVED, Request_REJECTED, Request_COMPLETED}"
    by (simp add: InstallationRequestStateService_is_valid_status_def Request_Status_values_def)
  have rows: "\<forall>x \<in> set (installation_requests
                 (save_installation_request d (r\<lparr>request_status := new\<rparr>))).
                request_id x = request_id r \<longrightarrow> request_status x = new"
  proof (intro ballI impI)
    fix x
    assume "x \<in> set (installation_requests
                 (save_installation_request d (r\<lparr>request_status := new\<rparr>)))"
      and "request_id x = request_id r"
    then have "x = r\<lparr>request_status := new\<rparr>"
      using save_installation_request_rows [of x d "r\<lparr>request_status := new\<rparr>"] by simp
    then show "request_status x = new" by simp
  qed
  have completed:
    "Request_COMPLETED \<in> {Request_PENDING, Request_APPROVED, Request_REJECTED, Request_COMPLETED}"
    by simp
  show ?thesis
    using vt vs rows completed save_installation_request_mem [of "r\<lparr>request_status := new\<rparr>" d]
    by (auto simp add: InstallationRequestStateService_transition_def Let_def
        simp del: insert_iff)
qed

text \<open>
  On the example request, which is Completed with 2 racks of 3 shelves: the backward
  step to Pending is stored, and with no racks the step to Completed raises.
\<close>

theorem request_transition_rule_witness:
  "fst (InstallationRequestStateService_transition example_db example_request Request_PENDING)
     = Inr True
   \<and> snd (snd (InstallationRequestStateService_transition example_db example_request
         Request_PENDING)) = example_request\<lparr>request_status := Request_PENDING\<rparr>
   \<and> (\<exists>m. InstallationRequestStateService_transition example_db
            (example_request\<lparr>num_rack := 0\<rparr>) Request_COMPLETED
          = (Inl (IncompleteInstallationRequestError m), example_db,
             example_request\<lparr>num_rack := 0\<rparr>))"
proof -
  have a: "Request_PENDING
             \<in> {Request_PENDING, Request_APPROVED, Request_REJECTED, Request_COMPLETED}
           \<and> \<not> (Request_PENDING = Request_COMPLETED
                 \<and> num_rack example_request * num_shelves_per_rack example_request = 0)"
    by (simp add: example_request_def)
  from a request_transition_rule [of Request_PENDING Request_PENDING example_db example_request]
  obtain d' where 1: "InstallationRequestStateService_transition example_db example_request
       Request_PENDING = (Inr True, d', example_request\<lparr>request_status := Request_PENDING\<rparr>)"
    by blast
  have b: "Request_COMPLETED = Request_COMPLETED
           \<and> num_rack (example_request\<lparr>num_rack := 0\<rparr>)
               * num_shelves_per_rack (example_request\<lparr>num_rack := 0\<rparr>) = 0"
    by simp
  from b request_transition_rule [of Request_COMPLETED Request_COMPLETED example_db
      "example_request\<lparr>num_rack := 0\<rparr>"]
  obtain m where 2: "fst (InstallationRequestStateService_transition example_db
            (example_request\<lparr>num_rack := 0\<rparr>) Request_COMPLETED)
          = Inl (IncompleteInstallationRequestError m)"
    by blast
  with request_transition_rule [of Request_COMPLETED Request_COMPLETED example_db
      "example_request\<lparr>num_rack := 0\<rparr>"]
  have 3: "snd (InstallationRequestStateService_transition example_db
            (example_request\<lparr>num_rack := 0\<rparr>) Request_COMPLETED)
          = (example_db, example_request\<lparr>num_rack := 0\<rparr>)"
    by blast
  from 2 3 have "InstallationRequestStateService_transition example_db
            (example_request\<lparr>num_rack := 0\<rparr>) Request_COMPLETED
          = (Inl (IncompleteInstallationRequestError m), example_db,
             example_request\<lparr>num_rack := 0\<rparr>)"
    by (metis prod.collapse)
  with 1 show ?thesis by auto
qed

subsection \<open>Duration and price of a booking\<close>

text \<open>
  C9, as stated, asks that \<open>get_price_per_day\<close> returns the daily rate for every booking
  with \<open>end_date \<ge> start_date\<close> whose price was computed from that rate. A booking of
  no shelves (the URL \<open>book/<space_id>/0/\<close> creates one) has the price 0 and the divisor
  0: the division raises.
\<close>

theorem price_per_day_zero_shelves_counterexample:
  "start_date (example_booking\<lparr>num_shelves_occupied := 0, total_price := 0\<rparr>)
     \<le> end_date (example_booking\<lparr>num_shelves_occupied := 0, total_price := 0\<rparr>)
   \<and> total_price (example_booking\<lparr>num_shelves_occupied := 0, total_price := 0\<rparr>)
     = form_valid_total_price 10 12 (699 / 100) 0
   \<and> BookingService_get_price_per_day
       (example_booking\<lparr>num_shelves_occupied := 0, total_price := 0\<rparr>)
     = Inl InvalidOperation
   \<and> BookingService_get_price_per_day
       (example_booking\<lparr>num_shelves_occupied := 0, total_price := 0\<rparr>)
     \<noteq> Inr (699 / 100)"
  by (simp add: example_booking_def form_valid_total_price_def
      BookingService_get_price_per_day_def decimal_div_def)

text \<open>
  C9, amended. \<open>get_total_days\<close> returns \<open>(end_date - start_date).days + 1\<close>, which is 1
  for equal dates and at least 1 whenever \<open>end_date \<ge> start_date\<close>. For a booking with
  \<open>end_date \<ge> start_date\<close> and a number of shelves other than zero whose price was
  computed as \<open>num_days * rate * num_shelves_occupied\<close>, \<open>get_price_per_day\<close> returns
  exactly the rate. Two shelves for the three days 10 to 12 at 6.99 cost 41.94.
\<close>

theorem total_days_and_price_per_day:
  "BookingService_get_total_days b = (end_date b - start_date b) + 1
   \<and> (start_date b = end_date b \<longrightarrow> BookingService_get_total_days b = 1)
   \<and> (start_date b \<le> end_date b \<longrightarrow> BookingService_get_total_days b \<ge> 1)
   \<and> (start_date b \<le> end_date b \<and> num_shelves_occupied b \<noteq> 0
        \<and> total_price b
            = form_valid_total_price (start_date b) (end_date b) rate (num_shelves_occupied b)
        \<longrightarrow> BookingService_get_price_per_day b = Inr rate)
   \<and> form_valid_total_price 10 12 (699 / 100) 2 = 4194 / 100"
proof -
  have days: "BookingService_get_total_days b = (end_date b - start_date b) + 1"
    by (simp add: BookingService_get_total_days_def DateMgr_get_total_days_def)
  have price: "BookingService_get_price_per_day b = Inr rate"
    if le: "start_date b \<le> end_date b" and n: "num_shelves_occupied b \<noteq> 0"
      and tp: "total_price b
            = form_valid_total_price (start_date b) (end_date b) rate (num_shelves_occupied b)"
  proof -
    let ?k = "num_shelves_occupied b * BookingService_get_total_days b"
    from le days have "BookingService_get_total_days b \<noteq> 0" by simp
    with n have k: "?k \<noteq> 0" by simp
    have "total_price b = rate * of_int ?k"
      by (simp add: tp form_valid_total_price_def BookingService_get_total_days_def)
    with k have "total_price b / of_int ?k = rate" by simp
    with k show ?thesis
      by (simp add: BookingService_get_price_per_day_def decimal_div_def)
  qed
  have ex: "form_valid_total_price 10 12 (699 / 100) 2 = 4194 / 100"
    by (simp add: form_valid_total_price_def DateMgr_get_total_days_def)
  from days price ex show ?thesis by simp
qed

text \<open>The example booking: 2 shelves, 3 days, 41.94 in total, 6.99 per shelf and day.\<close>

theorem total_days_and_price_per_day_witness:
  "BookingService_get_total_days example_booking = 3
   \<and> total_price example_booking = 4194 / 100
   \<and> BookingService_get_price_per_day example_booking = Inr (699 / 100)"
proof -
  have h: "start_date example_booking \<le> end_date example_booking
        \<and> num_shelves_occupied example_booking \<noteq> 0
        \<and> total_price example_booking
            = form_valid_total_price (start_date example_booking) (end_date example_booking)
                (699 / 100) (num_shelves_occupied example_booking)"
    by (simp add: example_booking_def form_valid_total_price_def DateMgr_get_total_days_def)
  from h total_days_and_price_per_day [of example_booking "699 / 100"]
  have "BookingService_get_price_per_day example_booking = Inr (699 / 100)"
    by blast
  moreover from total_days_and_price_per_day [of example_booking "699 / 100"]
  have "BookingService_get_total_days example_booking = 3"
    by (simp add: example_booking_def)
  ultimately show ?thesis by (simp add: example_booking_def)
qed

subsection \<open>Availability search\<close>

lemma filter_by_ids:
  assumes "\<And>x y. space_id x = space_id y \<Longrightarrow> P x = P y"
  shows "filter (\<lambda>s. space_id s \<in> set (map space_id (filter P xs))) xs = filter P xs"
proof (rule filter_cong [OF refl])
  fix s assume s: "s \<in> set xs"
  show "(space_id s \<in> set (map space_id (filter P xs))) = P s"
  proof
    assume "space_id s \<in> set (map space_id (filter P xs))"
    then obtain y where "P y" and "space_id y = space_id s" by auto
    then show "P s" using assms [of y s] by simp
  next
    assume "P s"
    with s show "space_id s \<in> set (map space_id (filter P xs))" by simp
  qed
qed

lemma get_available_spaces_reject:
  assumes "min l w > SHELF_WIDTH \<or> h > SHELF_HEIGHT"
  shows "SpaceService_get_available_spaces d loc l w h = []"
proof (cases "min l w > SHELF_WIDTH")
  case True
  then show ?thesis
    unfolding SpaceService_get_available_spaces_def Let_def by (simp only: if_True)
next
  case False
  with assms have "h > SHELF_HEIGHT" by blast
  with False show ?thesis
    unfolding SpaceService_get_available_spaces_def Let_def by (simp only: if_True if_False)
qed

lemma get_available_spaces_swap:
  "SpaceService_get_available_spaces d loc l w h = SpaceService_get_available_spaces d loc w l h"
proof -
  have "max l w = max w l" "min l w = min w l" by simp_all
  then show ?thesis
    unfolding SpaceService_get_available_spaces_def Let_def by (simp only:)
qed


lemma get_available_spaces_pass:
  assumes "\<not> min l w > SHELF_WIDTH" and "\<not> h > SHELF_HEIGHT"
  shows "SpaceService_get_available_spaces d loc l w h =
     map (\<lambda>s. (s, max_available_shelves d s, \<lceil>(of_int (max l w) :: rat) / of_int SHELF_LENGTH\<rceil>))
       (filter (\<lambda>s. list_ex (\<lambda>r. available_shelves d r
                                \<ge> \<lceil>(of_int (max l w) :: rat) / of_int SHELF_LENGTH\<rceil>)
                       (rack_set d (space_id s)))
         (filter (\<lambda>s. list_ex (\<lambda>r. rack_length r \<ge> max l w) (rack_set d (space_id s)))
           (if loc \<noteq> []
            then filter (\<lambda>s. list_ex (\<lambda>x. location_id x = space_location s
                                         \<and> icontains (area x) loc) (locations d))
                   (SpaceService_get_spaces d None (Some Space_APPROVED))
            else SpaceService_get_spaces d None (Some Space_APPROVED))))"
proof -
  let ?n = "\<lceil>(of_int (max l w) :: rat) / of_int SHELF_LENGTH\<rceil>"
  let ?P = "\<lambda>s. list_ex (\<lambda>r. available_shelves d r \<ge> ?n) (rack_set d (space_id s))"
  have ids: "filter (\<lambda>s. space_id s \<in> set (map space_id (filter ?P xs))) xs = filter ?P xs" for xs
    by (rule filter_by_ids) simp
  show ?thesis
    unfolding SpaceService_get_available_spaces_def Let_def
    by (simp only: assms if_False ids)
qed

lemma get_available_spaces_long_rack:
  assumes "x \<in> set (SpaceService_get_available_spaces d loc l w h)"
  shows "\<exists>r \<in> set (rack_set d (space_id (fst x))). rack_length r \<ge> max l w"
proof -
  have ok: "\<not> min l w > SHELF_WIDTH" "\<not> h > SHELF_HEIGHT"
    using assms get_available_spaces_reject [of l w h d loc] by auto
  from assms show ?thesis
    unfolding get_available_spaces_pass [OF ok]
    by (auto simp: list_ex_iff)
qed

text \<open>
  C7, as stated, has the footprint (60, 10, 10) rejected outright. Its normalized width
  is 10 and its height 10, so the search goes on to the racks: on the example database
  it returns the example space, whose third rack is 400 long and has 8 available
  shelves, with the 2 shelves the length 60 needs.
\<close>

theorem available_spaces_60_10_10_counterexample:
  "SpaceService_get_available_spaces example_db [] 60 10 10 = [(example_space, Some 8, 2)]
   \<and> SpaceService_get_available_spaces example_db [] 60 10 10 \<noteq> []"
  by code_simp

text \<open>
  C7, amended. \<open>get_available_spaces\<close> returns the empty result whenever the smaller of
  length and width exceeds the shelf width 46 or the height exceeds the shelf height
  42, and exchanging length and width does not change the result. The item
  (10, 10, 50) yields the empty result on every database. The items (10, 50, 10) and
  (60, 10, 10) pass the dimension check: on the example database the search returns
  the example space for both.
\<close>

theorem available_spaces_dimension_check:
  "(min l w > 46 \<or> h > 42 \<longrightarrow> SpaceService_get_available_spaces d loc l w h = [])
   \<and> SpaceService_get_available_spaces d loc l w h
       = SpaceService_get_available_spaces d loc w l h
   \<and> SpaceService_get_available_spaces d loc 10 10 50 = []
   \<and> SpaceService_get_available_spaces example_db [] 10 50 10 = [(example_space, Some 8, 1)]
   \<and> SpaceService_get_available_spaces example_db [] 60 10 10 = [(example_space, Some 8, 2)]"
proof -
  have rej: "min l w > 46 \<or> h > 42 \<longrightarrow> SpaceService_get_available_spaces d loc l w h = []"
    using get_available_spaces_reject [of l w h d loc]
    by (simp add: SHELF_WIDTH_def SHELF_HEIGHT_def)
  have high: "SpaceService_get_available_spaces d loc 10 10 50 = []"
    by (rule get_available_spaces_reject) (simp add: SHELF_HEIGHT_def)
  have a: "SpaceService_get_available_spaces example_db [] 10 50 10 = [(example_space, Some 8, 1)]"
    by code_simp
  have b: "SpaceService_get_available_spaces example_db [] 60 10 10 = [(example_space, Some 8, 2)]"
    by code_simp
  from rej high a b get_available_spaces_swap [of d loc l w h] show ?thesis by blast
qed

text \<open>Width 47 after normalizing (47, 60, 10): empty on the example database.\<close>

theorem available_spaces_dimension_check_witness:
  "min (47 :: int) 60 > 46 \<and> SpaceService_get_available_spaces example_db [] 47 60 10 = []"
  using available_spaces_dimension_check [of 47 60 10 example_db "[]"] by simp

text \<open>
  C10. Every space that \<open>get_available_spaces\<close> returns has a rack at least as long as
  the normalized length; a space all of whose racks are shorter is not returned,
  whatever the availability of its shelves. When the dimension check passes, the
  spaces returned are the approved spaces (matching the location, if one is given)
  filtered first by the rack length and then by the number of available shelves.
\<close>

theorem available_spaces_rack_length_filter:
  "(\<forall>x \<in> set (SpaceService_get_available_spaces d loc l w h).
      \<exists>r \<in> set (rack_set d (space_id (fst x))). rack_length r \<ge> max l w)
   \<and> ((\<forall>r \<in> set (rack_set d (space_id s)). rack_length r < max l w) \<longrightarrow>
        s \<notin> fst ` set (SpaceService_get_available_spaces d loc l w h))
   \<and> (\<not> min l w > SHELF_WIDTH \<and> \<not> h > SHELF_HEIGHT \<longrightarrow>
        map fst (SpaceService_get_available_spaces d loc l w h) =
          filter (\<lambda>s. list_ex (\<lambda>r. available_shelves d r
                                   \<ge> \<lceil>(of_int (max l w) :: rat) / of_int SHELF_LENGTH\<rceil>)
                          (rack_set d (space_id s)))
            (filter (\<lambda>s. list_ex (\<lambda>r. rack_length r \<ge> max l w) (rack_set d (space_id s)))
              (if loc \<noteq> []
               then filter (\<lambda>s. list_ex (\<lambda>x. location_id x = space_location s
                                            \<and> icontains (area x) loc) (locations d))
                      (SpaceService_get_spaces d None (Some Space_APPROVED))
               else SpaceService_get_spaces d None (Some Space_APPROVED))))"
proof (intro conjI ballI impI)
  fix x assume "x \<in> set (SpaceService_get_available_spaces d loc l w h)"
  then show "\<exists>r \<in> set (rack_set d (space_id (fst x))). rack_length r \<ge> max l w"
    by (rule get_available_spaces_long_rack)
next
  assume short: "\<forall>r \<in> set (rack_set d (space_id s)). rack_length r < max l w"
  show "s \<notin> fst ` set (SpaceService_get_available_spaces d loc l w h)"
  proof
    assume "s \<in> fst ` set (SpaceService_get_available_spaces d loc l w h)"
    then obtain x where "x \<in> set (SpaceService_get_available_spaces d loc l w h)" and "fst x = s"
      by auto
    with get_available_spaces_long_rack [of x d loc l w h]
    obtain r where "r \<in> set (rack_set d (space_id s))" and "rack_length r \<ge> max l w"
      by auto
    with short show False by fastforce
  qed
next
  assume "\<not> min l w > SHELF_WIDTH \<and> \<not> h > SHELF_HEIGHT"
  then have ok: "\<not> min l w > SHELF_WIDTH" "\<not> h > SHELF_HEIGHT" by simp_all
  show "map fst (SpaceService_get_available_spaces d loc l w h) =
          filter (\<lambda>s. list_ex (\<lambda>r. available_shelves d r
                                   \<ge> \<lceil>(of_int (max l w) :: rat) / of_int SHELF_LENGTH\<rceil>)
                          (rack_set d (space_id s)))
            (filter (\<lambda>s. list_ex (\<lambda>r. rack_length r \<ge> max l w) (rack_set d (space_id s)))
              (if loc \<noteq> []
               then filter (\<lambda>s. list_ex (\<lambda>x. location_id x = space_location s
                                            \<and> icontains (area x) loc) (locations d))
                      (SpaceService_get_spaces d None (Some Space_APPROVED))
               else SpaceService_get_spaces d None (Some Space_APPROVED)))"
    unfolding get_available_spaces_pass [OF ok]
    by (simp add: comp_def)
qed

text \<open>
  A search of length 401 on the example database: each rack of the example space is
  shorter, although the third has 8 available shelves. Length 400 finds the space.
\<close>

theorem available_spaces_rack_length_filter_witness:
  "list_all (\<lambda>r. rack_length r < max 401 10) (rack_set example_db (space_id example_space))
   \<and> example_space \<notin> fst ` set (SpaceService_get_available_spaces example_db [] 401 10 10)
   \<and> map fst (SpaceService_get_available_spaces example_db [] 400 10 10) = [example_space]"
proof -
  have short: "list_all (\<lambda>r. rack_length r < max 401 10)
                 (rack_set example_db (space_id example_space))"
    by code_simp
  then have "\<forall>r \<in> set (rack_set example_db (space_id example_space)). rack_length r < max 401 10"
    by (simp add: list_all_iff)
  with available_spaces_rack_length_filter [of example_db "[]" 401 10 10 example_space]
  have 1: "example_space \<notin> fst ` set (SpaceService_get_available_spaces example_db [] 401 10 10)"
    by blast
  have 2: "map fst (SpaceService_get_available_spaces example_db [] 400 10 10) = [example_space]"
    by code_simp
  from short 1 2 show ?thesis by blast
qed

subsection \<open>Allocation of a rack\<close>

lemma sort_key_head_least:
  assumes "sort_key f xs = y # ys" and "x \<in> set xs"
  shows "f y \<le> f x"
proof -
  have "sorted (map f (sort_key f xs))" by (rule sorted_sort_key)
  with assms(1) have "\<forall>z \<in> set ys. f y \<le> f z" by simp
  moreover from assms(2) have "x \<in> set (sort_key f xs)" by simp
  with assms(1) have "x = y \<or> x \<in> set ys" by simp
  ultimately show ?thesis by auto
qed

lemma sort_key_head_mem:
  assumes "sort_key f xs = y # ys"
  shows "y \<in> set xs"
proof -
  have "y \<in> set (sort_key f xs)" unfolding assms by simp
  then show ?thesis by simp
qed

lemma annotated_filter_mem:
  "p \<in> set (filter (\<lambda>(r, n). n \<ge> m) (map (\<lambda>r. (r, f r)) xs))
     \<longleftrightarrow> fst p \<in> set xs \<and> snd p = f (fst p) \<and> f (fst p) \<ge> (m :: int)"
  by (cases p) auto


text \<open>
  C5. \<open>get_rack\<close> returns \<open>None\<close> exactly when no rack of the space has at least
  \<open>min_shelves\<close> available shelves. The rack it returns otherwise is a rack of the
  space with at least \<open>min_shelves\<close> available shelves, and no rack of the space with
  at least \<open>min_shelves\<close> available shelves has fewer of them.
\<close>

theorem get_rack_best_fit:
  "(BookingFormService_get_rack d sp m = None
      \<longleftrightarrow> \<not> (\<exists>r \<in> set (rack_set d (space_id sp)). available_shelves d r \<ge> m))
   \<and> (\<forall>r. BookingFormService_get_rack d sp m = Some r \<longrightarrow>
          r \<in> set (rack_set d (space_id sp))
          \<and> available_shelves d r \<ge> m
          \<and> (\<forall>r' \<in> set (rack_set d (space_id sp)).
                available_shelves d r' \<ge> m \<longrightarrow> available_shelves d r \<le> available_shelves d r'))"
proof -
  define rs where "rs = rack_set d (space_id sp)"
  define flt where "flt = filter (\<lambda>(r, n). n \<ge> m) (map (\<lambda>r. (r, available_shelves d r)) rs)"
  define ord where "ord = sort_key snd flt"
  have res: "BookingFormService_get_rack d sp m
               = (case ord of [] \<Rightarrow> None | (r, n) # rest \<Rightarrow> Some r)"
    by (simp add: BookingFormService_get_rack_def SpaceService_get_racks_def Let_def
        ord_def flt_def rs_def)
  have mem: "p \<in> set flt
     \<longleftrightarrow> fst p \<in> set rs \<and> snd p = available_shelves d (fst p) \<and> available_shelves d (fst p) \<ge> m"
    for p unfolding flt_def by (rule annotated_filter_mem)
  have none: "BookingFormService_get_rack d sp m = None
      \<longleftrightarrow> \<not> (\<exists>r \<in> set rs. available_shelves d r \<ge> m)"
  proof
    assume "BookingFormService_get_rack d sp m = None"
    then have "ord = []" by (simp add: res split: list.splits prod.splits)
    then have "set flt = {}" unfolding ord_def by (metis set_empty set_sort)
    show "\<not> (\<exists>r \<in> set rs. available_shelves d r \<ge> m)"
    proof
      assume "\<exists>r \<in> set rs. available_shelves d r \<ge> m"
      then obtain r where "r \<in> set rs" and "available_shelves d r \<ge> m" by blast
      then have "(r, available_shelves d r) \<in> set flt" by (simp add: mem)
      with \<open>set flt = {}\<close> show False by simp
    qed
  next
    assume no: "\<not> (\<exists>r \<in> set rs. available_shelves d r \<ge> m)"
    have "flt = []"
    proof (cases flt)
      case Nil then show ?thesis .
    next
      case (Cons p ps)
      then have "p \<in> set flt" by simp
      with mem [of p] no show ?thesis by blast
    qed
    then have "ord = []" by (simp add: ord_def)
    then show "BookingFormService_get_rack d sp m = None" by (simp add: res)
  qed
  have some: "r \<in> set rs \<and> available_shelves d r \<ge> m
          \<and> (\<forall>r' \<in> set rs.
                available_shelves d r' \<ge> m \<longrightarrow> available_shelves d r \<le> available_shelves d r')"
    if "BookingFormService_get_rack d sp m = Some r" for r
  proof -
    from that obtain n rest where ord: "sort_key snd flt = (r, n) # rest"
      unfolding res ord_def by (cases "sort_key snd flt") (auto split: prod.splits)
    then have "(r, n) \<in> set flt" by (rule sort_key_head_mem)
    with mem [of "(r, n)"]
    have 1: "r \<in> set rs" and n: "n = available_shelves d r" and ge: "available_shelves d r \<ge> m"
      by simp_all
    have "available_shelves d r \<le> available_shelves d r'"
      if "r' \<in> set rs" and "available_shelves d r' \<ge> m" for r'
    proof -
      from that have "(r', available_shelves d r') \<in> set flt" by (simp add: mem)
      from sort_key_head_least [OF ord this] n show ?thesis by simp
    qed
    with 1 ge show ?thesis by blast
  qed
  from none some show ?thesis unfolding rs_def by blast
qed

text \<open>
  The racks of the example space have 5, 2 and 8 available shelves: a request for 2
  shelves gets the rack with 2, and a request for 9 gets none.
\<close>

theorem get_rack_best_fit_witness:
  "map (available_shelves example_db) (rack_set example_db (space_id example_space)) = [5, 2, 8]
   \<and> BookingFormService_get_rack example_db example_space 2
       = Some \<lparr>rack_id = 2, rack_space = 1, rack_length = 150\<rparr>
   \<and> available_shelves example_db \<lparr>rack_id = 2, rack_space = 1, rack_length = 150\<rparr> = 2
   \<and> BookingFormService_get_rack example_db example_space 9 = None"
proof -
  have counts: "map (available_shelves example_db) (rack_set example_db (space_id example_space))
                  = [5, 2, 8]"
    by code_simp
  have two: "BookingFormService_get_rack example_db example_space 2
       = Some \<lparr>rack_id = 2, rack_space = 1, rack_length = 150\<rparr>"
    by code_simp
  have "\<not> (\<exists>r \<in> set (rack_set example_db (space_id example_space)).
              available_shelves example_db r \<ge> 9)"
  proof
    assume "\<exists>r \<in> set (rack_set example_db (space_id example_space)).
              available_shelves example_db r \<ge> 9"
    then have "\<exists>n \<in> set (map (available_shelves example_db)
                  (rack_set example_db (space_id example_space))). n \<ge> 9"
      by auto
    then show False unfolding counts by simp
  qed
  with get_rack_best_fit [of example_db example_space 9]
  have nine: "BookingFormService_get_rack example_db example_space 9 = None"
    by blast
  from two get_rack_best_fit [of example_db example_space 2]
  have ge: "available_shelves example_db \<lparr>rack_id = 2, rack_space = 1, rack_length = 150\<rparr> \<ge> 2"
    by blast
  have eq: "available_shelves example_db \<lparr>rack_id = 2, rack_space = 1, rack_length = 150\<rparr> = 2"
    by code_simp
  from counts two nine ge eq show ?thesis by simp
qed

subsection \<open>Conversion of an installation request\<close>

text \<open>
  The inner loop of \<open>create_shelves\<close> appends one available shelf of the rack for each
  index, labelled with the index padded to three digits; the outer loop appends the
  racks, each followed by its shelves.
\<close>

lemma create_shelves_of_rack_effect:
  "\<exists>new. create_shelves_of_rack d r is
            = d\<lparr>shelves := shelves d @ new, next_shelf_id := next_shelf_id d + length is\<rparr>
     \<and> map shelf_label new = map (\<lambda>i. zfill 3 (str_nat i)) is
     \<and> (\<forall>s \<in> set new. shelf_rack s = rack_id r \<and> is_available s)"
proof (induction "is" arbitrary: d)
  case Nil
  show ?case by (intro exI [of _ "[]"]) simp
next
  case (Cons i "is")
  define s0 where "s0 = \<lparr>shelf_id = next_shelf_id d, shelf_rack = rack_id r,
                          shelf_label = zfill 3 (str_nat i), is_available = True\<rparr>"
  define d1 where "d1 = d\<lparr>shelves := shelves d @ [s0], next_shelf_id := Suc (next_shelf_id d)\<rparr>"
  have step: "create_shelves_of_rack d r (i # is) = create_shelves_of_rack d1 r is"
    unfolding d1_def s0_def by (simp add: insert_shelf_def Let_def)
  from Cons.IH [of d1] obtain new where
    eq: "create_shelves_of_rack d1 r is
            = d1\<lparr>shelves := shelves d1 @ new, next_shelf_id := next_shelf_id d1 + length is\<rparr>"
    and lab: "map shelf_label new = map (\<lambda>i. zfill 3 (str_nat i)) is"
    and own: "\<forall>s \<in> set new. shelf_rack s = rack_id r \<and> is_available s"
    by blast
  have 1: "create_shelves_of_rack d r (i # is)
            = d\<lparr>shelves := shelves d @ (s0 # new),
                next_shelf_id := next_shelf_id d + length (i # is)\<rparr>"
    unfolding step eq by (simp add: d1_def)
  have 2: "map shelf_label (s0 # new) = map (\<lambda>i. zfill 3 (str_nat i)) (i # is)"
    by (simp add: lab s0_def)
  have 3: "\<forall>s \<in> set (s0 # new). shelf_rack s = rack_id r \<and> is_available s"
    using own by (simp add: s0_def)
  from 1 2 3 show ?case by blast
qed


lemma create_racks_effect:
  "\<exists>nr ns. create_racks d sp n us
            = d\<lparr>racks := racks d @ nr, shelves := shelves d @ ns,
                next_rack_id := next_rack_id d + length us,
                next_shelf_id := next_shelf_id d + length us * nat n\<rparr>
     \<and> length nr = length us
     \<and> distinct (map rack_id nr)
     \<and> (\<forall>rk \<in> set nr. rack_space rk = space_id sp \<and> rack_length rk = n * SHELF_LENGTH
            \<and> next_rack_id d \<le> rack_id rk
            \<and> map shelf_label (filter (\<lambda>s. shelf_rack s = rack_id rk) ns)
                = map (\<lambda>i. zfill 3 (str_nat i)) [0 ..< nat n])
     \<and> (\<forall>s \<in> set ns. is_available s \<and> next_rack_id d \<le> shelf_rack s)
     \<and> length ns = length us * nat n"
proof (induction us arbitrary: d)
  case Nil
  show ?case by (intro exI [of _ "[]"]) simp
next
  case (Cons u us)
  define r where "r = \<lparr>rack_id = next_rack_id d, rack_space = space_id sp,
                         rack_length = n * SHELF_LENGTH\<rparr>"
  define d1 where "d1 = d\<lparr>racks := racks d @ [r], next_rack_id := Suc (next_rack_id d)\<rparr>"
  define d2 where "d2 = create_shelves_of_rack d1 r [0 ..< nat n]"
  have step: "create_racks d sp n (u # us) = create_racks d2 sp n us"
    unfolding d2_def d1_def r_def by (simp add: insert_rack_def Let_def)
  from create_shelves_of_rack_effect [of d1 r "[0 ..< nat n]"] obtain new where
    d2: "d2 = d1\<lparr>shelves := shelves d1 @ new, next_shelf_id := next_shelf_id d1 + nat n\<rparr>"
    and lab: "map shelf_label new = map (\<lambda>i. zfill 3 (str_nat i)) [0 ..< nat n]"
    and own: "\<forall>s \<in> set new. shelf_rack s = rack_id r \<and> is_available s"
    unfolding d2_def by auto
  from Cons.IH [of d2] obtain nr ns where
    eq: "create_racks d2 sp n us
            = d2\<lparr>racks := racks d2 @ nr, shelves := shelves d2 @ ns,
                next_rack_id := next_rack_id d2 + length us,
                next_shelf_id := next_shelf_id d2 + length us * nat n\<rparr>"
    and len: "length nr = length us"
    and dist: "distinct (map rack_id nr)"
    and rk: "\<forall>rk \<in> set nr. rack_space rk = space_id sp \<and> rack_length rk = n * SHELF_LENGTH
            \<and> next_rack_id d2 \<le> rack_id rk
            \<and> map shelf_label (filter (\<lambda>s. shelf_rack s = rack_id rk) ns)
                = map (\<lambda>i. zfill 3 (str_nat i)) [0 ..< nat n]"
    and sh: "\<forall>s \<in> set ns. is_available s \<and> next_rack_id d2 \<le> shelf_rack s"
    and lns: "length ns = length us * nat n"
    by blast
  have nxt: "next_rack_id d2 = Suc (next_rack_id d)" by (simp add: d2 d1_def)
  have rid: "rack_id r = next_rack_id d" by (simp add: r_def)
  have lnew: "length new = nat n"
    using arg_cong [OF lab, of length] by simp
  have 1: "create_racks d sp n (u # us)
            = d\<lparr>racks := racks d @ (r # nr), shelves := shelves d @ (new @ ns),
                next_rack_id := next_rack_id d + length (u # us),
                next_shelf_id := next_shelf_id d + length (u # us) * nat n\<rparr>"
    unfolding step eq by (simp add: d2 d1_def add.assoc)
  have 2: "length (r # nr) = length (u # us)" by (simp add: len)
  have 3: "distinct (map rack_id (r # nr))"
    using dist rk by (auto simp: rid nxt)
  have old_none: "filter (\<lambda>s. shelf_rack s = rack_id r) ns = []"
    using sh by (auto simp: filter_empty_conv rid nxt)
  have new_all: "filter (\<lambda>s. shelf_rack s = rack_id r) new = new"
    using own by (simp add: filter_id_conv)
  have new_none: "filter (\<lambda>s. shelf_rack s = rack_id x) new = []" if "x \<in> set nr" for x
  proof -
    from rk that have "next_rack_id d2 \<le> rack_id x" by blast
    then have "rack_id x \<noteq> rack_id r" by (simp add: rid nxt)
    with own show ?thesis by (auto simp: filter_empty_conv)
  qed
  have 4: "\<forall>rk \<in> set (r # nr). rack_space rk = space_id sp \<and> rack_length rk = n * SHELF_LENGTH
            \<and> next_rack_id d \<le> rack_id rk
            \<and> map shelf_label (filter (\<lambda>s. shelf_rack s = rack_id rk) (new @ ns))
                = map (\<lambda>i. zfill 3 (str_nat i)) [0 ..< nat n]"
  proof
    fix x assume "x \<in> set (r # nr)"
    then consider "x = r" | "x \<in> set nr" by auto
    then show "rack_space x = space_id sp \<and> rack_length x = n * SHELF_LENGTH
            \<and> next_rack_id d \<le> rack_id x
            \<and> map shelf_label (filter (\<lambda>s. shelf_rack s = rack_id x) (new @ ns))
                = map (\<lambda>i. zfill 3 (str_nat i)) [0 ..< nat n]"
    proof cases
      case 1
      then show ?thesis
        by (simp add: old_none new_all lab) (simp add: r_def)
    next
      case 2
      with rk have "rack_space x = space_id sp \<and> rack_length x = n * SHELF_LENGTH
            \<and> next_rack_id d2 \<le> rack_id x
            \<and> map shelf_label (filter (\<lambda>s. shelf_rack s = rack_id x) ns)
                = map (\<lambda>i. zfill 3 (str_nat i)) [0 ..< nat n]" by blast
      with new_none [OF 2] show ?thesis by (simp add: nxt)
    qed
  qed
  have 5: "\<forall>s \<in> set (new @ ns). is_available s \<and> next_rack_id d \<le> shelf_rack s"
    using own sh by (auto simp: rid nxt)
  have 6: "length (new @ ns) = length (u # us) * nat n"
    by (simp add: lnew lns)
  from 1 2 3 4 5 6 show ?case by blast
qed


text \<open>
  C4. \<open>convert_to_space\<close> of a request that is not Completed raises an error that
  carries the status of the request, and the database is as it was. For a Completed
  request it returns a new space, appended to the table, with status Approved, height
  42 times \<open>num_rack\<close> and the price and other data of the request. It appends
  \<open>num_rack\<close> racks of the new space (none for a negative number), each of length
  \<open>num_shelves_per_rack\<close> times 50, and for each of them \<open>num_shelves_per_rack\<close>
  shelves, all available, labelled with the padded indices 0, 1, ... in order; the rows
  of the request are deleted. In a database whose racks and shelves point to existing
  rows, the racks of the new space are exactly the new racks and the shelves of each new
  rack are exactly its new shelves. The labels of the indices 0, 1 and 12 are
  \<open>000\<close>, \<open>001\<close> and \<open>012\<close>.
\<close>

theorem convert_to_space_result:
  "(request_status r \<noteq> Request_COMPLETED \<longrightarrow>
      InstallationRequestService_convert_to_space d r
        = (Inl (InstallationRequestError (request_status r)), d))
   \<and> (request_status r = Request_COMPLETED \<longrightarrow>
      (\<exists>sp d' nr ns.
         InstallationRequestService_convert_to_space d r = (Inr sp, d')
         \<and> sp = \<lparr>space_id = next_space_id d,
                  space_renter = request_renter r,
                  space_location = request_location r,
                  space_environment_conditions = request_environment_conditions r,
                  space_height = 42 * num_rack r,
                  space_status = Space_APPROVED,
                  space_price_per_day = request_price_per_day r,
                  space_description = request_description r\<rparr>
         \<and> spaces d' = spaces d @ [sp]
         \<and> racks d' = racks d @ nr
         \<and> length nr = nat (num_rack r)
         \<and> distinct (map rack_id nr)
         \<and> (\<forall>rk \<in> set nr.
               rack_space rk = space_id sp
               \<and> rack_length rk = num_shelves_per_rack r * 50
               \<and> map shelf_label (filter (\<lambda>s. shelf_rack s = rack_id rk) ns)
                   = map (\<lambda>i. zfill 3 (str_nat i)) [0 ..< nat (num_shelves_per_rack r)])
         \<and> shelves d' = shelves d @ ns
         \<and> (\<forall>s \<in> set ns. is_available s)
         \<and> length ns = nat (num_rack r) * nat (num_shelves_per_rack r)
         \<and> installation_requests d'
             = filter (\<lambda>x. request_id x \<noteq> request_id r) (installation_requests d)
         \<and> ((\<forall>x \<in> set (racks d). rack_space x < next_space_id d) \<longrightarrow>
               rack_set d' (space_id sp) = nr)
         \<and> ((\<forall>s \<in> set (shelves d). shelf_rack s < next_rack_id d) \<longrightarrow>
               (\<forall>rk \<in> set nr.
                  map shelf_label (shelf_set d' (rack_id rk))
                    = map (\<lambda>i. zfill 3 (str_nat i)) [0 ..< nat (num_shelves_per_rack r)]
                  \<and> list_all is_available (shelf_set d' (rack_id rk))))))
   \<and> zfill 3 (str_nat 0) = ''000'' \<and> zfill 3 (str_nat 1) = ''001''
   \<and> zfill 3 (str_nat 12) = ''012''"
proof (intro conjI impI)
  assume "request_status r \<noteq> Request_COMPLETED"
  then show "InstallationRequestService_convert_to_space d r
        = (Inl (InstallationRequestError (request_status r)), d)"
    by (simp add: InstallationRequestService_convert_to_space_def)
next
  show "zfill 3 (str_nat 0) = ''000''" by code_simp
  show "zfill 3 (str_nat 1) = ''001''" by code_simp
  show "zfill 3 (str_nat 12) = ''012''" by code_simp
next
  assume completed: "request_status r = Request_COMPLETED"
  define sp where "sp = \<lparr>space_id = next_space_id d,
                  space_renter = request_renter r,
                  space_location = request_location r,
                  space_environment_conditions = request_environment_conditions r,
                  space_height = 42 * num_rack r,
                  space_status = Space_APPROVED,
                  space_price_per_day = request_price_per_day r,
                  space_description = request_description r\<rparr>"
  define d1 where "d1 = d\<lparr>spaces := spaces d @ [sp], next_space_id := Suc (next_space_id d)\<rparr>"
  define d2 where "d2 = create_racks d1 sp (num_shelves_per_rack r) [0 ..< nat (num_rack r)]"
  define d3 where "d3 = delete_installation_request d2 r"
  have conv: "InstallationRequestService_convert_to_space d r = (Inr sp, d3)"
    unfolding d3_def d2_def d1_def sp_def
    by (simp add: InstallationRequestService_convert_to_space_def completed insert_space_def
        Let_def SpaceService_create_shelves_def SHELF_HEIGHT_def)
  from create_racks_effect [of d1 sp "num_shelves_per_rack r" "[0 ..< nat (num_rack r)]"]
  obtain nr ns where
    d2: "d2 = d1\<lparr>racks := racks d1 @ nr, shelves := shelves d1 @ ns,
                next_rack_id := next_rack_id d1 + nat (num_rack r),
                next_shelf_id := next_shelf_id d1
                   + nat (num_rack r) * nat (num_shelves_per_rack r)\<rparr>"
    and len: "length nr = nat (num_rack r)"
    and dist: "distinct (map rack_id nr)"
    and rk: "\<forall>rk \<in> set nr. rack_space rk = space_id sp
            \<and> rack_length rk = num_shelves_per_rack r * SHELF_LENGTH
            \<and> next_rack_id d1 \<le> rack_id rk
            \<and> map shelf_label (filter (\<lambda>s. shelf_rack s = rack_id rk) ns)
                = map (\<lambda>i. zfill 3 (str_nat i)) [0 ..< nat (num_shelves_per_rack r)]"
    and sh: "\<forall>s \<in> set ns. is_available s \<and> next_rack_id d1 \<le> shelf_rack s"
    and lns: "length ns = nat (num_rack r) * nat (num_shelves_per_rack r)"
    unfolding d2_def by auto
  have sid: "space_id sp = next_space_id d" by (simp add: sp_def)
  have a: "spaces d3 = spaces d @ [sp]"
    by (simp add: d3_def delete_installation_request_def d2 d1_def)
  have b: "racks d3 = racks d @ nr"
    by (simp add: d3_def delete_installation_request_def d2 d1_def)
  have c: "shelves d3 = shelves d @ ns"
    by (simp add: d3_def delete_installation_request_def d2 d1_def)
  have e: "installation_requests d3
             = filter (\<lambda>x. request_id x \<noteq> request_id r) (installation_requests d)"
    by (simp add: d3_def delete_installation_request_def d2 d1_def)
  have f: "\<forall>rk \<in> set nr.
               rack_space rk = space_id sp
               \<and> rack_length rk = num_shelves_per_rack r * 50
               \<and> map shelf_label (filter (\<lambda>s. shelf_rack s = rack_id rk) ns)
                   = map (\<lambda>i. zfill 3 (str_nat i)) [0 ..< nat (num_shelves_per_rack r)]"
    using rk by (simp add: SHELF_LENGTH_def)
  have g: "\<forall>s \<in> set ns. is_available s" using sh by blast
  have h: "rack_set d3 (space_id sp) = nr"
    if old: "\<forall>x \<in> set (racks d). rack_space x < next_space_id d"
  proof -
    have "filter (\<lambda>x. rack_space x = space_id sp) (racks d) = []"
      using old by (auto simp: filter_empty_conv sid)
    moreover have "filter (\<lambda>x. rack_space x = space_id sp) nr = nr"
      using rk by (simp add: filter_id_conv)
    ultimately show ?thesis by (simp add: rack_set_def b)
  qed
  have i: "\<forall>rk \<in> set nr.
             map shelf_label (shelf_set d3 (rack_id rk))
               = map (\<lambda>i. zfill 3 (str_nat i)) [0 ..< nat (num_shelves_per_rack r)]
             \<and> list_all is_available (shelf_set d3 (rack_id rk))"
    if old: "\<forall>s \<in> set (shelves d). shelf_rack s < next_rack_id d"
  proof
    fix x assume x: "x \<in> set nr"
    with rk have "next_rack_id d1 \<le> rack_id x" by blast
    then have "next_rack_id d \<le> rack_id x" by (simp add: d1_def)
    with old have "filter (\<lambda>s. shelf_rack s = rack_id x) (shelves d) = []"
      by (auto simp: filter_empty_conv)
    then have set_eq: "shelf_set d3 (rack_id x) = filter (\<lambda>s. shelf_rack s = rack_id x) ns"
      by (simp add: shelf_set_def c)
    from f x have "map shelf_label (filter (\<lambda>s. shelf_rack s = rack_id x) ns)
                   = map (\<lambda>i. zfill 3 (str_nat i)) [0 ..< nat (num_shelves_per_rack r)]"
      by blast
    moreover have "list_all is_available (filter (\<lambda>s. shelf_rack s = rack_id x) ns)"
      using g by (simp add: list_all_iff)
    ultimately show "map shelf_label (shelf_set d3 (rack_id x))
               = map (\<lambda>i. zfill 3 (str_nat i)) [0 ..< nat (num_shelves_per_rack r)]
             \<and> list_all is_available (shelf_set d3 (rack_id x))"
      by (simp add: set_eq)
  qed
  from conv a b c e f g h i len dist lns
  show "\<exists>sp d' nr ns.
         InstallationRequestService_convert_to_space d r = (Inr sp, d')
         \<and> sp = \<lparr>space_id = next_space_id d,
                  space_renter = request_renter r,
                  space_location = request_location r,
                  space_environment_conditions = request_environment_conditions r,
                  space_height = 42 * num_rack r,
                  space_status = Space_APPROVED,
                  space_price_per_day = request_price_per_day r,
                  space_description = request_description r\<rparr>
         \<and> spaces d' = spaces d @ [sp]
         \<and> racks d' = racks d @ nr
         \<and> length nr = nat (num_rack r)
         \<and> distinct (map rack_id nr)
         \<and> (\<forall>rk \<in> set nr.
               rack_space rk = space_id sp
               \<and> rack_length rk = num_shelves_per_rack r * 50
               \<and> map shelf_label (filter (\<lambda>s. shelf_rack s = rack_id rk) ns)
                   = map (\<lambda>i. zfill 3 (str_nat i)) [0 ..< nat (num_shelves_per_rack r)])
         \<and> shelves d' = shelves d @ ns
         \<and> (\<forall>s \<in> set ns. is_available s)
         \<and> length ns = nat (num_rack r) * nat (num_shelves_per_rack r)
         \<and> installation_requests d'
             = filter (\<lambda>x. request_id x \<noteq> request_id r) (installation_requests d)
         \<and> ((\<forall>x \<in> set (racks d). rack_space x < next_space_id d) \<longrightarrow>
               rack_set d' (space_id sp) = nr)
         \<and> ((\<forall>s \<in> set (shelves d). shelf_rack s < next_rack_id d) \<longrightarrow>
               (\<forall>rk \<in> set nr.
                  map shelf_label (shelf_set d' (rack_id rk))
                    = map (\<lambda>i. zfill 3 (str_nat i)) [0 ..< nat (num_shelves_per_rack r)]
                  \<and> list_all is_available (shelf_set d' (rack_id rk))))"
    unfolding sp_def [symmetric]
    by (intro exI [of _ sp] exI [of _ d3] exI [of _ nr] exI [of _ ns]) blast
qed


text \<open>
  The example request, 2 racks of 3 shelves: the space 2 of height 84, its racks 4 and 5
  of length 150, six new shelves, all available, and no request left. An Approved
  request is refused.
\<close>

theorem convert_to_space_result_witness:
  "fst (InstallationRequestService_convert_to_space example_db example_request)
     = Inr \<lparr>space_id = 2, space_renter = 1, space_location = 1,
            space_environment_conditions = ''AC'', space_height = 84,
            space_status = Space_APPROVED, space_price_per_day = 699 / 100,
            space_description = ''Storage''\<rparr>
   \<and> rack_set (snd (InstallationRequestService_convert_to_space example_db example_request)) 2
     = [\<lparr>rack_id = 4, rack_space = 2, rack_length = 150\<rparr>,
        \<lparr>rack_id = 5, rack_space = 2, rack_length = 150\<rparr>]
   \<and> map (\<lambda>s. (shelf_rack s, shelf_label s, is_available s))
        (drop 16 (shelves (snd
           (InstallationRequestService_convert_to_space example_db example_request))))
     = [(4, ''000'', True), (4, ''001'', True), (4, ''002'', True),
        (5, ''000'', True), (5, ''001'', True), (5, ''002'', True)]
   \<and> length (shelves (snd
         (InstallationRequestService_convert_to_space example_db example_request))) = 16 + 6
   \<and> installation_requests (snd
         (InstallationRequestService_convert_to_space example_db example_request)) = []
   \<and> InstallationRequestService_convert_to_space example_db
         (example_request\<lparr>request_status := Request_APPROVED\<rparr>)
     = (Inl (InstallationRequestError Request_APPROVED), example_db)"
proof -
  have completed: "request_status example_request = Request_COMPLETED"
    by (simp add: example_request_def)
  from completed convert_to_space_result [of example_request example_db]
  obtain sp d' nr ns where
    conv: "InstallationRequestService_convert_to_space example_db example_request = (Inr sp, d')"
    and sh: "shelves d' = shelves example_db @ ns"
    and lns: "length ns = nat (num_rack example_request)
                 * nat (num_shelves_per_rack example_request)"
    by blast
  have "length (shelves example_db) = 16" by code_simp
  with sh lns have 1: "length (shelves d') = 16 + 6"
    by (simp add: example_request_def)
  have other: "request_status (example_request\<lparr>request_status := Request_APPROVED\<rparr>)
                 \<noteq> Request_COMPLETED"
    by (simp add: Request_APPROVED_def Request_COMPLETED_def)
  with convert_to_space_result [of "example_request\<lparr>request_status := Request_APPROVED\<rparr>"
      example_db]
  have 2: "InstallationRequestService_convert_to_space example_db
         (example_request\<lparr>request_status := Request_APPROVED\<rparr>)
     = (Inl (InstallationRequestError Request_APPROVED), example_db)"
    by simp
  have 3: "fst (InstallationRequestService_convert_to_space example_db example_request)
     = Inr \<lparr>space_id = 2, space_renter = 1, space_location = 1,
            space_environment_conditions = ''AC'', space_height = 84,
            space_status = Space_APPROVED, space_price_per_day = 699 / 100,
            space_description = ''Storage''\<rparr>"
    by code_simp
  have 4: "rack_set (snd (InstallationRequestService_convert_to_space example_db example_request)) 2
     = [\<lparr>rack_id = 4, rack_space = 2, rack_length = 150\<rparr>,
        \<lparr>rack_id = 5, rack_space = 2, rack_length = 150\<rparr>]"
    by code_simp
  have 5: "map (\<lambda>s. (shelf_rack s, shelf_label s, is_available s))
        (drop 16 (shelves (snd
           (InstallationRequestService_convert_to_space example_db example_request))))
     = [(4, ''000'', True), (4, ''001'', True), (4, ''002'', True),
        (5, ''000'', True), (5, ''001'', True), (5, ''002'', True)]"
    by code_simp
  have 6: "installation_requests (snd
         (InstallationRequestService_convert_to_space example_db example_request)) = []"
    by code_simp
  from 1 2 3 4 5 6 conv show ?thesis by simp
qed

subsection \<open>Occupancy of a booking\<close>

lemmas booking_codes = Booking_BOOKED_def Booking_ACTIVE_def Booking_PAST_def
  Booking_CANCELLED_def Booking_Status_values_def

lemma get_shelves_negative:
  "num_shelves_occupied b < 0 \<Longrightarrow> BookingService_get_shelves d b = Inl ValueError"
  by (simp add: BookingService_get_shelves_def Let_def)

lemma get_shelves_nonnegative:
  "0 \<le> num_shelves_occupied b \<Longrightarrow> \<exists>qs. BookingService_get_shelves d b = Inr qs"
  by (simp add: BookingService_get_shelves_def Let_def)

lemma update_space_release:
  assumes "booking_status b \<noteq> Booking_ACTIVE" and "occupying_space b"
    and "BookingService_get_shelves d b = Inr qs"
  shows "BookingStateService_update_space d b
           = (None, save_booking (update_is_available d qs True) (b\<lparr>occupying_space := False\<rparr>),
              b\<lparr>occupying_space := False\<rparr>)"
  using assms
  by (simp add: BookingStateService_update_space_def BookingStateService_release_space_def)

lemma update_space_occupy:
  assumes "booking_status b = Booking_ACTIVE" and "\<not> occupying_space b"
    and "BookingService_get_shelves d b = Inr qs"
  shows "BookingStateService_update_space d b
           = (None, save_booking (update_is_available d qs False) (b\<lparr>occupying_space := True\<rparr>),
              b\<lparr>occupying_space := True\<rparr>)"
  using assms
  by (simp add: BookingStateService_update_space_def BookingStateService_occupy_space_def)

lemma update_space_noop:
  assumes "occupying_space b = (booking_status b = Booking_ACTIVE)"
  shows "BookingStateService_update_space d b = (None, save_booking d b, b)"
  using assms by (simp add: BookingStateService_update_space_def)

lemma update_space_error:
  assumes "occupying_space b \<noteq> (booking_status b = Booking_ACTIVE)"
    and "num_shelves_occupied b < 0"
  shows "BookingStateService_update_space d b = (Some ValueError, d, b)"
  using assms get_shelves_negative [of b d]
  by (auto simp add: BookingStateService_update_space_def BookingStateService_occupy_space_def
      BookingStateService_release_space_def)

lemma save_booking_mem: "b \<in> set (bookings (save_booking d b))"
  by (auto simp: save_booking_def list_ex_iff)

lemma save_booking_shelves: "shelves (save_booking d b) = shelves d"
  by (simp add: save_booking_def)

lemma update_is_available_shelves:
  "shelves (update_is_available d qs v)
     = map (\<lambda>s. if s \<in> set qs then s\<lparr>is_available := v\<rparr> else s) (shelves d)"
  by (simp add: update_is_available_def)


lemma update_space_cases:
  obtains
    (release) qs where "booking_status b \<noteq> Booking_ACTIVE" "occupying_space b"
      "0 \<le> num_shelves_occupied b" "BookingService_get_shelves d b = Inr qs"
      "BookingStateService_update_space d b
         = (None, save_booking (update_is_available d qs True) (b\<lparr>occupying_space := False\<rparr>),
            b\<lparr>occupying_space := False\<rparr>)"
  | (occupy) qs where "booking_status b = Booking_ACTIVE" "\<not> occupying_space b"
      "0 \<le> num_shelves_occupied b" "BookingService_get_shelves d b = Inr qs"
      "BookingStateService_update_space d b
         = (None, save_booking (update_is_available d qs False) (b\<lparr>occupying_space := True\<rparr>),
            b\<lparr>occupying_space := True\<rparr>)"
  | (noop) "occupying_space b = (booking_status b = Booking_ACTIVE)"
      "BookingStateService_update_space d b = (None, save_booking d b, b)"
  | (error) "occupying_space b \<noteq> (booking_status b = Booking_ACTIVE)"
      "num_shelves_occupied b < 0"
      "BookingStateService_update_space d b = (Some ValueError, d, b)"
proof (cases "occupying_space b = (booking_status b = Booking_ACTIVE)")
  case True
  then show ?thesis using noop update_space_noop [of b d] by blast
next
  case mismatch: False
  show ?thesis
  proof (cases "num_shelves_occupied b < 0")
    case True
    with mismatch show ?thesis using error update_space_error [of b d] by blast
  next
    case False
    then have nn: "0 \<le> num_shelves_occupied b" by simp
    then obtain qs where qs: "BookingService_get_shelves d b = Inr qs"
      using get_shelves_nonnegative by blast
    show ?thesis
    proof (cases "occupying_space b")
      case True
      with mismatch have "booking_status b \<noteq> Booking_ACTIVE" by simp
      with True nn qs show ?thesis using release update_space_release [of b d qs] by blast
    next
      case False
      with mismatch have "booking_status b = Booking_ACTIVE" by simp
      with False nn qs show ?thesis using occupy update_space_occupy [of b d qs] by blast
    qed
  qed
qed

text \<open>
  C1. \<open>update_space\<close> returns unless the number of shelves of the booking is negative
  and its flag disagrees with its status (the slice in \<open>get_shelves\<close> raises then, and
  nothing has changed). When it returns, the booking satisfies
  \<open>occupying_space = (status = Active)\<close>, its status is as before, and it is the row
  saved in the table. A booking that is not Active and was occupying has the shelves of
  \<open>get_shelves\<close> marked available and its flag cleared; an Active booking that was not
  occupying has them marked unavailable and its flag set; in every other case the
  booking and the shelves are unchanged. The same equation holds after every
  \<open>update_status\<close> that returns, since it ends with \<open>update_space\<close>.
\<close>

theorem update_space_invariant:
  assumes "BookingStateService_update_space d b = (r, d', b')"
  shows "(r = None \<longleftrightarrow>
            0 \<le> num_shelves_occupied b
            \<or> occupying_space b = (booking_status b = Booking_ACTIVE))
   \<and> (r = None \<longrightarrow>
         occupying_space b' = (booking_status b' = Booking_ACTIVE)
         \<and> b' = b\<lparr>occupying_space := (booking_status b = Booking_ACTIVE)\<rparr>
         \<and> b' \<in> set (bookings d'))
   \<and> (r = None \<and> booking_status b \<noteq> Booking_ACTIVE \<and> occupying_space b \<longrightarrow>
         (\<exists>qs. BookingService_get_shelves d b = Inr qs
            \<and> shelves d' = map (\<lambda>s. if s \<in> set qs then s\<lparr>is_available := True\<rparr> else s)
                             (shelves d))
         \<and> \<not> occupying_space b')
   \<and> (r = None \<and> booking_status b = Booking_ACTIVE \<and> \<not> occupying_space b \<longrightarrow>
         (\<exists>qs. BookingService_get_shelves d b = Inr qs
            \<and> shelves d' = map (\<lambda>s. if s \<in> set qs then s\<lparr>is_available := False\<rparr> else s)
                             (shelves d))
         \<and> occupying_space b')
   \<and> (occupying_space b = (booking_status b = Booking_ACTIVE) \<longrightarrow>
         b' = b \<and> shelves d' = shelves d)
   \<and> (r \<noteq> None \<longrightarrow> r = Some ValueError \<and> d' = d \<and> b' = b)
   \<and> (\<forall>today new_status r2 d2 b2.
         BookingStateService_update_status today d b new_status = (r2, d2, b2) \<and> r2 = None
         \<longrightarrow> occupying_space b2 = (booking_status b2 = Booking_ACTIVE))"
proof -
  have inv: "occupying_space y = (booking_status y = Booking_ACTIVE)"
    if "BookingStateService_update_space dx x = (None, dy, y)" for dx x dy y
    using that by (cases rule: update_space_cases [of x dx]) auto
  have status: "\<forall>today new_status r2 d2 b2.
         BookingStateService_update_status today d b new_status = (r2, d2, b2) \<and> r2 = None
         \<longrightarrow> occupying_space b2 = (booking_status b2 = Booking_ACTIVE)"
    unfolding BookingStateService_update_status_def Let_def using inv by blast
  show ?thesis
  proof (cases rule: update_space_cases [of b d])
    case (release qs)
    with assms status show ?thesis
      by (auto simp add: save_booking_mem save_booking_shelves update_is_available_shelves)
  next
    case (occupy qs)
    with assms status show ?thesis
      by (auto simp add: save_booking_mem save_booking_shelves update_is_available_shelves)
  next
    case noop
    with assms status show ?thesis
      by (auto simp add: save_booking_mem save_booking_shelves)
  next
    case error
    with assms status show ?thesis by auto
  qed
qed


text \<open>
  The second example booking occupies one shelf of rack 2. Once its status is Past,
  \<open>update_space\<close> clears the flag and the shelf is available again.
\<close>

theorem update_space_invariant_witness:
  "fst (BookingStateService_update_space example_db
          (example_booking2\<lparr>booking_status := Booking_PAST\<rparr>)) = None
   \<and> snd (snd (BookingStateService_update_space example_db
          (example_booking2\<lparr>booking_status := Booking_PAST\<rparr>)))
       = example_booking2\<lparr>booking_status := Booking_PAST, occupying_space := False\<rparr>
   \<and> map is_available (shelf_set example_db 2) = [False, True, True]
   \<and> map is_available (shelf_set (fst (snd (BookingStateService_update_space example_db
          (example_booking2\<lparr>booking_status := Booking_PAST\<rparr>)))) 2) = [True, True, True]"
proof -
  let ?b = "example_booking2\<lparr>booking_status := Booking_PAST\<rparr>"
  obtain r d' b' where eq: "BookingStateService_update_space example_db ?b = (r, d', b')"
    by (metis prod_cases3)
  have nn: "0 \<le> num_shelves_occupied ?b" by (simp add: example_booking2_def)
  have st: "booking_status ?b \<noteq> Booking_ACTIVE"
    by (simp add: Booking_PAST_def Booking_ACTIVE_def)
  from update_space_invariant [OF eq] nn have r: "r = None" by blast
  with update_space_invariant [OF eq] st
  have b': "b' = ?b\<lparr>occupying_space := False\<rparr>" by simp
  have before: "map is_available (shelf_set example_db 2) = [False, True, True]"
    by code_simp
  have after: "map is_available (shelf_set (fst (snd (BookingStateService_update_space example_db
          (example_booking2\<lparr>booking_status := Booking_PAST\<rparr>)))) 2) = [True, True, True]"
    by code_simp
  from eq r b' before after show ?thesis by simp
qed

subsection \<open>Automatic status of a booking\<close>

lemma update_space_keeps:
  assumes "BookingStateService_update_space d b = (r, d', b')"
  shows "b' = (if r = None then b\<lparr>occupying_space := (booking_status b = Booking_ACTIVE)\<rparr> else b)"
    and "r = None \<longleftrightarrow> 0 \<le> num_shelves_occupied b
                      \<or> occupying_space b = (booking_status b = Booking_ACTIVE)"
    and "r = None \<Longrightarrow> b' \<in> set (bookings d')"
  using assms
  by (cases rule: update_space_cases [of b d]; auto simp: save_booking_mem)+

lemma update_status_automatic_eq:
  assumes "new_status = None \<or> new_status = Some []"
  shows "BookingStateService_update_status today d b new_status
           = BookingStateService_update_space d (automatic_status today b)"
  using assms by (auto simp: BookingStateService_update_status_def)

lemma automatic_status_fields:
  "automatic_status today b = b\<lparr>booking_status := booking_status (automatic_status today b)\<rparr>"
  by (simp add: automatic_status_def)

text \<open>
  C6, as stated, sets the status to Booked whenever today is before the start date.
  The source tests \<open>end_date < today\<close> first, and the booking form does not compare
  the two dates: a booking from day 10 to day 5, updated on day 7, becomes Past.
\<close>

theorem update_status_inverted_range_counterexample:
  "booking_status (example_booking\<lparr>end_date := 5\<rparr>) \<noteq> Booking_CANCELLED
   \<and> (7 :: int) < start_date (example_booking\<lparr>end_date := 5\<rparr>)
   \<and> end_date (example_booking\<lparr>end_date := 5\<rparr>) < (7 :: int)
   \<and> booking_status (snd (snd (BookingStateService_update_status 7 example_db
          (example_booking\<lparr>end_date := 5\<rparr>) None))) = Booking_PAST
   \<and> booking_status (snd (snd (BookingStateService_update_status 7 example_db
          (example_booking\<lparr>end_date := 5\<rparr>) None))) \<noteq> Booking_BOOKED"
  by code_simp

text \<open>
  C6, amended. With no explicit target (\<open>None\<close> or the empty string), a booking that is
  not Cancelled gets the status Past if \<open>end_date < today\<close>, Active if
  \<open>start_date \<le> today \<le> end_date\<close>, and Booked otherwise, that is if
  \<open>today < start_date\<close> and \<open>today \<le> end_date\<close>; for a booking with
  \<open>start_date \<le> end_date\<close> the last case is \<open>today < start_date\<close>. A Cancelled booking
  keeps its status. The call is \<open>update_space\<close> on the booking with that status: it
  returns unless the number of shelves is negative and the flag disagrees with the new
  status, and then the booking is the row saved in the table and satisfies
  \<open>occupying_space = (status = Active)\<close>.
\<close>

theorem update_status_automatic:
  assumes "new_status = None \<or> new_status = Some []"
    and "BookingStateService_update_status today d b new_status = (r, d', b')"
  shows "(booking_status b \<noteq> Booking_CANCELLED \<and> end_date b < today
            \<longrightarrow> booking_status b' = Booking_PAST)
   \<and> (booking_status b \<noteq> Booking_CANCELLED \<and> start_date b \<le> today \<and> today \<le> end_date b
            \<longrightarrow> booking_status b' = Booking_ACTIVE)
   \<and> (booking_status b \<noteq> Booking_CANCELLED \<and> today < start_date b \<and> today \<le> end_date b
            \<longrightarrow> booking_status b' = Booking_BOOKED)
   \<and> (booking_status b \<noteq> Booking_CANCELLED \<and> start_date b \<le> end_date b
          \<and> today < start_date b
            \<longrightarrow> booking_status b' = Booking_BOOKED)
   \<and> (booking_status b = Booking_CANCELLED \<longrightarrow> booking_status b' = Booking_CANCELLED)
   \<and> BookingStateService_update_space d (b\<lparr>booking_status := booking_status b'\<rparr>)
       = (r, d', b')
   \<and> (r = None \<longleftrightarrow>
         0 \<le> num_shelves_occupied b
         \<or> occupying_space b = (booking_status b' = Booking_ACTIVE))
   \<and> (r = None \<longrightarrow>
         b' \<in> set (bookings d')
         \<and> occupying_space b' = (booking_status b' = Booking_ACTIVE))"
proof -
  let ?b1 = "automatic_status today b"
  from assms have eq: "BookingStateService_update_space d ?b1 = (r, d', b')"
    by (simp add: update_status_automatic_eq)
  from update_space_keeps(1) [OF eq] have st: "booking_status b' = booking_status ?b1"
    by (simp split: if_splits)
  have b1: "?b1 = b\<lparr>booking_status := booking_status b'\<rparr>"
    using automatic_status_fields [of today b] st by simp
  have num: "num_shelves_occupied ?b1 = num_shelves_occupied b"
    and occ: "occupying_space ?b1 = occupying_space b"
    by (simp_all add: automatic_status_def)
  have 1: "booking_status b \<noteq> Booking_CANCELLED \<and> end_date b < today
            \<longrightarrow> booking_status b' = Booking_PAST"
    by (simp add: st automatic_status_def)
  have 2: "booking_status b \<noteq> Booking_CANCELLED \<and> start_date b \<le> today \<and> today \<le> end_date b
            \<longrightarrow> booking_status b' = Booking_ACTIVE"
    by (simp add: st automatic_status_def)
  have 3: "booking_status b \<noteq> Booking_CANCELLED \<and> today < start_date b \<and> today \<le> end_date b
            \<longrightarrow> booking_status b' = Booking_BOOKED"
    by (simp add: st automatic_status_def)
  have 4: "booking_status b \<noteq> Booking_CANCELLED \<and> start_date b \<le> end_date b
          \<and> today < start_date b
            \<longrightarrow> booking_status b' = Booking_BOOKED"
    using 3 by simp
  have 5: "booking_status b = Booking_CANCELLED \<longrightarrow> booking_status b' = Booking_CANCELLED"
    by (simp add: st automatic_status_def)
  have 6: "BookingStateService_update_space d (b\<lparr>booking_status := booking_status b'\<rparr>)
       = (r, d', b')"
    using eq b1 by simp
  have 7: "r = None \<longleftrightarrow>
         0 \<le> num_shelves_occupied b
         \<or> occupying_space b = (booking_status b' = Booking_ACTIVE)"
    using update_space_keeps(2) [OF eq] by (simp add: num occ st)
  have 8: "r = None \<longrightarrow>
         b' \<in> set (bookings d')
         \<and> occupying_space b' = (booking_status b' = Booking_ACTIVE)"
    using update_space_keeps(1,3) [OF eq] by auto
  from 1 2 3 4 5 6 7 8 show ?thesis by blast
qed

text \<open>
  The first example booking runs from day 10 to day 12 with 2 shelves of rack 2: it is
  Booked on day 9, Active on day 11, when the two available shelves of the rack become
  unavailable, and Past on day 13.
\<close>

theorem update_status_automatic_witness:
  "snd (snd (BookingStateService_update_status 11 example_db example_booking None))
     = example_booking\<lparr>booking_status := Booking_ACTIVE, occupying_space := True\<rparr>
   \<and> fst (BookingStateService_update_status 11 example_db example_booking None) = None
   \<and> booking_status (snd (snd
        (BookingStateService_update_status 9 example_db example_booking None))) = Booking_BOOKED
   \<and> booking_status (snd (snd
        (BookingStateService_update_status 13 example_db example_booking None))) = Booking_PAST
   \<and> map is_available (shelf_set (fst (snd
        (BookingStateService_update_status 11 example_db example_booking None))) 2)
       = [False, False, False]"
proof -
  obtain r d' b' where
    eq: "BookingStateService_update_status 11 example_db example_booking None = (r, d', b')"
    by (metis prod_cases3)
  have h: "booking_status example_booking \<noteq> Booking_CANCELLED
           \<and> start_date example_booking \<le> 11 \<and> 11 \<le> end_date example_booking"
    by (simp add: example_booking_def Booking_BOOKED_def Booking_CANCELLED_def)
  have nn: "0 \<le> num_shelves_occupied example_booking" by (simp add: example_booking_def)
  from update_status_automatic [OF _ eq] h have st: "booking_status b' = Booking_ACTIVE"
    by blast
  from update_status_automatic [OF _ eq] nn have r: "r = None" by blast
  have 1: "snd (snd (BookingStateService_update_status 11 example_db example_booking None))
     = example_booking\<lparr>booking_status := Booking_ACTIVE, occupying_space := True\<rparr>"
    by code_simp
  have 2: "booking_status (snd (snd
        (BookingStateService_update_status 9 example_db example_booking None))) = Booking_BOOKED"
    by code_simp
  have 3: "booking_status (snd (snd
        (BookingStateService_update_status 13 example_db example_booking None))) = Booking_PAST"
    by code_simp
  have 4: "map is_available (shelf_set (fst (snd
        (BookingStateService_update_status 11 example_db example_booking None))) 2)
       = [False, False, False]"
    by code_simp
  from eq st r 1 2 3 4 show ?thesis by simp
qed

subsection \<open>The batch update\<close>

lemma automatic_status_idem:
  "automatic_status today (automatic_status today b) = automatic_status today b"
  by (simp add: automatic_status_def booking_codes)

lemma automatic_status_id: "booking_id (automatic_status today b) = booking_id b"
  by (simp add: automatic_status_def)

lemma save_booking_present:
  assumes "distinct (map booking_id (bookings d))" and "x \<in> set (bookings d)"
  shows "save_booking d x = d"
proof -
  have "map (\<lambda>y. if booking_id y = booking_id x then x else y) (bookings d) = bookings d"
  proof (rule map_idI)
    fix y assume y: "y \<in> set (bookings d)"
    show "(if booking_id y = booking_id x then x else y) = y"
    proof (cases "booking_id y = booking_id x")
      case True
      from assms(1) have "inj_on booking_id (set (bookings d))"
        by (simp add: distinct_map)
      with True y assms(2) have "y = x" by (auto dest: inj_onD)
      then show ?thesis by simp
    next
      case False then show ?thesis by simp
    qed
  qed
  moreover have "list_ex (\<lambda>y. booking_id y = booking_id x) (bookings d)"
    using assms(2) by (auto simp: list_ex_iff)
  ultimately show ?thesis by (simp add: save_booking_def)
qed

lemma save_booking_replace:
  assumes "distinct (map booking_id (pre @ b # bs))" and "booking_id b1 = booking_id b"
    and "bookings d = pre @ b # bs"
  shows "bookings (save_booking d b1) = pre @ b1 # bs"
proof -
  from assms(1) have "booking_id b \<notin> booking_id ` set pre"
    and "booking_id b \<notin> booking_id ` set bs"
    by auto
  then have pre: "\<forall>y \<in> set pre. booking_id y \<noteq> booking_id b"
    and bs: "\<forall>y \<in> set bs. booking_id y \<noteq> booking_id b"
    by (metis imageI)+
  have 1: "map (\<lambda>y. if booking_id y = booking_id b1 then b1 else y) pre = pre"
    using pre by (intro map_idI) (simp add: assms(2))
  have 2: "map (\<lambda>y. if booking_id y = booking_id b1 then b1 else y) bs = bs"
    using bs by (intro map_idI) (simp add: assms(2))
  have "list_ex (\<lambda>y. booking_id y = booking_id b1) (bookings d)"
    by (simp add: assms(2,3) list_ex_iff)
  then show ?thesis
    by (simp add: save_booking_def assms(2,3) 1 2 [unfolded assms(2)] 1 [unfolded assms(2)])
qed

lemma update_is_available_bookings: "bookings (update_is_available d qs v) = bookings d"
  by (simp add: update_is_available_def)

text \<open>
  One step of the loop: either the booking is saved with its automatic status and the
  flag that fits it, or the step raises, in every database, and changes nothing.
\<close>

lemma update_status_step:
  obtains
    (ok) dS b1 where
      "BookingStateService_update_status today d b None = (None, save_booking dS b1, b1)"
      "bookings dS = bookings d" "booking_id b1 = booking_id b"
      "automatic_status today b1 = b1"
      "occupying_space b1 = (booking_status b1 = Booking_ACTIVE)"
  | (raise) "\<And>dx. BookingStateService_update_status today dx b None
                 = (Some ValueError, dx, automatic_status today b)"
proof -
  let ?a = "automatic_status today b"
  have eq: "BookingStateService_update_status today dx b None
              = BookingStateService_update_space dx ?a" for dx
    by (simp add: update_status_automatic_eq)
  have fix1: "automatic_status today (?a\<lparr>occupying_space := v\<rparr>) = ?a\<lparr>occupying_space := v\<rparr>"
    for v
    using automatic_status_idem [of today b] by (simp add: automatic_status_def)
  show ?thesis
  proof (cases rule: update_space_cases [of ?a d])
    case (release qs)
    show ?thesis
      by (rule ok [of "update_is_available d qs True" "?a\<lparr>occupying_space := False\<rparr>"])
        (simp_all add: eq release update_is_available_bookings automatic_status_id fix1)
  next
    case (occupy qs)
    show ?thesis
      by (rule ok [of "update_is_available d qs False" "?a\<lparr>occupying_space := True\<rparr>"])
        (simp_all add: eq occupy update_is_available_bookings automatic_status_id fix1)
  next
    case noop
    show ?thesis
      by (rule ok [of d ?a])
        (simp_all add: eq noop automatic_status_id automatic_status_idem)
  next
    case error
    show ?thesis
      by (rule raise) (simp add: eq update_space_error [OF error(1,2)])
  qed
qed

lemma update_status_stable:
  assumes "automatic_status today x = x"
    and "occupying_space x = (booking_status x = Booking_ACTIVE)"
  shows "BookingStateService_update_status today d x None = (None, save_booking d x, x)"
  using assms update_space_noop [of x d] by (simp add: update_status_automatic_eq)


lemma update_status_loop_stable_prefix:
  assumes "distinct (map booking_id (bookings d))"
    and "\<forall>x \<in> set pre. x \<in> set (bookings d) \<and> automatic_status today x = x
           \<and> occupying_space x = (booking_status x = Booking_ACTIVE)"
  shows "update_status_loop today d (pre @ post) = update_status_loop today d post"
  using assms(2)
proof (induction pre)
  case Nil
  show ?case by simp
next
  case (Cons x pre)
  then have "BookingStateService_update_status today d x None = (None, save_booking d x, x)"
    by (simp add: update_status_stable)
  moreover from Cons.prems assms(1) have "save_booking d x = d"
    by (simp add: save_booking_present)
  ultimately show ?case using Cons by simp
qed

lemma update_status_loop_first_run:
  assumes "bookings d = pre @ bs"
    and "distinct (map booking_id (bookings d))"
    and "\<forall>x \<in> set pre. automatic_status today x = x
           \<and> occupying_space x = (booking_status x = Booking_ACTIVE)"
    and "update_status_loop today d bs = (e, d')"
  shows "\<exists>pre' post. bookings d' = pre' @ post
     \<and> distinct (map booking_id (bookings d'))
     \<and> (\<forall>x \<in> set pre'. automatic_status today x = x
           \<and> occupying_space x = (booking_status x = Booking_ACTIVE))
     \<and> update_status_loop today d' post = (e, d')"
  using assms
proof (induction bs arbitrary: d pre)
  case Nil
  then have "bookings d' = pre @ []
     \<and> distinct (map booking_id (bookings d'))
     \<and> (\<forall>x \<in> set pre. automatic_status today x = x
           \<and> occupying_space x = (booking_status x = Booking_ACTIVE))
     \<and> update_status_loop today d' [] = (e, d')"
    by auto
  then show ?case by (intro exI)
next
  case (Cons b bs)
  show ?case
  proof (cases rule: update_status_step [of today d b])
    case (ok dS b1)
    let ?d1 = "save_booking dS b1"
    have step: "update_status_loop today ?d1 bs = (e, d')"
      using Cons.prems(4) by (simp add: ok(1))
    have rows: "bookings ?d1 = (pre @ [b1]) @ bs"
      using save_booking_replace [of pre b bs b1 dS] Cons.prems(1,2) ok(2,3) by simp
    have "map booking_id (bookings ?d1) = map booking_id (bookings d)"
      by (simp add: rows Cons.prems(1) ok(3))
    with Cons.prems(2) have dist: "distinct (map booking_id (bookings ?d1))" by simp
    have stable: "\<forall>x \<in> set (pre @ [b1]). automatic_status today x = x
           \<and> occupying_space x = (booking_status x = Booking_ACTIVE)"
      using Cons.prems(3) ok(4,5) by simp
    from Cons.IH [OF rows dist stable step] show ?thesis .
  next
    case raise
    have loop: "update_status_loop today d (b # bs) = (Some ValueError, d)"
      by (simp add: raise)
    with Cons.prems(4) have e: "e = Some ValueError" and d': "d' = d" by simp_all
    have "bookings d' = pre @ (b # bs)
     \<and> distinct (map booking_id (bookings d'))
     \<and> (\<forall>x \<in> set pre. automatic_status today x = x
           \<and> occupying_space x = (booking_status x = Booking_ACTIVE))
     \<and> update_status_loop today d' (b # bs) = (e, d')"
      using Cons.prems(1,2,3) loop unfolding e d' by blast
    then show ?thesis by (intro exI)
  qed
qed

text \<open>
  C8. In a table of bookings with distinct primary keys, a second run of
  \<open>update_status_all\<close> on the same day ends as the first did and leaves the database
  returned by the first run as it is: every booking keeps its status and flag and every
  shelf its availability. This also holds when the first run was ended by an
  exception.
\<close>

theorem update_status_all_idempotent:
  assumes "distinct (map booking_id (bookings d))"
  shows "BookingStateService_update_status_all today
           (snd (BookingStateService_update_status_all today d))
         = BookingStateService_update_status_all today d
   \<and> bookings (snd (BookingStateService_update_status_all today
           (snd (BookingStateService_update_status_all today d))))
     = bookings (snd (BookingStateService_update_status_all today d))
   \<and> shelves (snd (BookingStateService_update_status_all today
           (snd (BookingStateService_update_status_all today d))))
     = shelves (snd (BookingStateService_update_status_all today d))"
proof -
  obtain e d1 where run: "update_status_loop today d (bookings d) = (e, d1)"
    by (cases "update_status_loop today d (bookings d)")
  from update_status_loop_first_run [of d "[]" "bookings d" today e d1] assms run
  obtain pre' post where rows: "bookings d1 = pre' @ post"
    and dist: "distinct (map booking_id (bookings d1))"
    and stable: "\<forall>x \<in> set pre'. automatic_status today x = x
           \<and> occupying_space x = (booking_status x = Booking_ACTIVE)"
    and rest: "update_status_loop today d1 post = (e, d1)"
    by auto
  from stable rows have "\<forall>x \<in> set pre'. x \<in> set (bookings d1) \<and> automatic_status today x = x
           \<and> occupying_space x = (booking_status x = Booking_ACTIVE)"
    by simp
  from update_status_loop_stable_prefix [OF dist this, of post]
  have "update_status_loop today d1 (bookings d1) = (e, d1)"
    by (simp add: rows rest)
  with run have "BookingStateService_update_status_all today
           (snd (BookingStateService_update_status_all today d))
         = BookingStateService_update_status_all today d"
    by (simp add: BookingStateService_update_status_all_def)
  then show ?thesis by simp
qed


text \<open>
  Day 11 on the example database: the first run makes the first booking Active, which
  occupies two shelves of rack 2, and the second Past, which releases one; the second
  run changes nothing.
\<close>

theorem update_status_all_idempotent_witness:
  "distinct (map booking_id (bookings example_db))
   \<and> BookingStateService_update_status_all 11
         (snd (BookingStateService_update_status_all 11 example_db))
       = BookingStateService_update_status_all 11 example_db
   \<and> fst (BookingStateService_update_status_all 11 example_db) = None
   \<and> map (\<lambda>b. (booking_status b, occupying_space b))
         (bookings (snd (BookingStateService_update_status_all 11 example_db)))
       = [(Booking_ACTIVE, True), (Booking_PAST, False)]
   \<and> map is_available (shelf_set example_db 2) = [False, True, True]
   \<and> map is_available (shelf_set (snd (BookingStateService_update_status_all 11 example_db)) 2)
       = [True, False, False]"
proof -
  have dist: "distinct (map booking_id (bookings example_db))"
    by code_simp
  have 1: "fst (BookingStateService_update_status_all 11 example_db) = None"
    by code_simp
  have 2: "map (\<lambda>b. (booking_status b, occupying_space b))
         (bookings (snd (BookingStateService_update_status_all 11 example_db)))
       = [(Booking_ACTIVE, True), (Booking_PAST, False)]"
    by code_simp
  have 3: "map is_available (shelf_set example_db 2) = [False, True, True]"
    by code_simp
  have 4: "map is_available
             (shelf_set (snd (BookingStateService_update_status_all 11 example_db)) 2)
       = [True, False, False]"
    by code_simp
  from update_status_all_idempotent [OF dist, of 11] dist 1 2 3 4 show ?thesis by blast
qed

end
